theory Spec2Isabelle
  imports Main "HOL-Library.Word"
begin

unbundle bit_operations_syntax

section \<open>Machine types and failures\<close>

type_synonym u8 = "8 word"
type_synonym u16 = "16 word"
type_synonym u32 = "32 word"
type_synonym u64 = "64 word"

text \<open>
  Ways in which a modelled function stops instead of returning: \<open>die\<close> and
  \<open>die_perror\<close> end the process, \<open>assert\<close> aborts it, an array access at an
  index past the allocated block is undefined behaviour in C (\<open>OUT_OF_BOUNDS\<close> with
  the index), and so is a copy or a read of a field that runs past the end of the
  block it starts in (\<open>OVERRUN\<close> with the end of the range), and a shift of an
  \<open>int\<close> by its width or more (\<open>UNDEFINED_SHIFT\<close> with the shift count). Each is a
  value of this type.
\<close>

datatype error = DIE | ASSERT_FAILED | OUT_OF_BOUNDS nat | OVERRUN nat | UNDEFINED_SHIFT nat

section \<open>The AArch64 vCPU reset (arm/aarch64/kvm-cpu.c)\<close>

text \<open>
  Modelled from the spec: the PSTATE bit values of \<open>asm/ptrace.h\<close>, a header the
  sources include but do not contain. The spec names the bits (D, A, I, F and the mode
  EL1h); the values are those of the architecture.
\<close>

definition PSR_MODE_EL1h :: u64 where "PSR_MODE_EL1h = 0x00000005"
definition PSR_F_BIT :: u64 where "PSR_F_BIT = 0x00000040"
definition PSR_I_BIT :: u64 where "PSR_I_BIT = 0x00000080"
definition PSR_A_BIT :: u64 where "PSR_A_BIT = 0x00000100"
definition PSR_D_BIT :: u64 where "PSR_D_BIT = 0x00000200"

text \<open>
  The core registers that \<open>ARM64_CORE_REG\<close> names by their field in
  \<open>struct kvm_regs\<close>: \<open>regs.pstate\<close>, \<open>regs.regs[n]\<close> and \<open>regs.pc\<close>.
\<close>

datatype core_reg = regs_pstate | regs_regs nat | regs_pc

text \<open>
  A vCPU: its \<open>cpu_id\<close>, the two addresses of \<open>kvm->arch\<close> that the reset reads,
  and the sequence of \<open>KVM_SET_ONE_REG\<close> requests issued on \<open>vcpu_fd\<close> so far.
\<close>

record kvm_cpu =
  cpu_id :: nat
  dtb_guest_start :: u64
  kern_guest_start :: u64
  set_one_reg_log :: "(core_reg \<times> u64) list"

text \<open>
  \<open>ioctl(vcpu->vcpu_fd, KVM_SET_ONE_REG, &reg)\<close>. The host decides whether the
  \<open>n\<close>-th request succeeds: \<open>ok n r\<close>. The request is recorded either way; the
  result is the return value of the ioctl.
\<close>

definition kvm_set_one_reg ::
  "(nat \<Rightarrow> core_reg \<Rightarrow> bool) \<Rightarrow> kvm_cpu \<Rightarrow> core_reg \<Rightarrow> u64 \<Rightarrow> int \<times> kvm_cpu" where
  "kvm_set_one_reg ok vcpu r v =
     ((if ok (length (set_one_reg_log vcpu)) r then 0 else -1),
      vcpu\<lparr>set_one_reg_log := set_one_reg_log vcpu @ [(r, v)]\<rparr>)"

text \<open>One \<open>if (ioctl(...) < 0) die_perror(...)\<close> statement.\<close>

definition set_reg_or_die ::
  "(nat \<Rightarrow> core_reg \<Rightarrow> bool) \<Rightarrow> core_reg \<Rightarrow> u64 \<Rightarrow> kvm_cpu \<Rightarrow> error + kvm_cpu" where
  "set_reg_or_die ok r v vcpu =
     (case kvm_set_one_reg ok vcpu r v of (ret, vcpu') \<Rightarrow>
        if ret < 0 then Inl DIE else Inr vcpu')"

definition then_do :: "error + 'a \<Rightarrow> ('a \<Rightarrow> error + 'b) \<Rightarrow> error + 'b" where
  "then_do m f = (case m of Inl e \<Rightarrow> Inl e | Inr x \<Rightarrow> f x)"

definition reset_vcpu_aarch64 ::
  "(nat \<Rightarrow> core_reg \<Rightarrow> bool) \<Rightarrow> kvm_cpu \<Rightarrow> error + kvm_cpu" where
  "reset_vcpu_aarch64 ok vcpu =
     then_do (set_reg_or_die ok regs_pstate
        (PSR_D_BIT OR PSR_A_BIT OR PSR_I_BIT OR PSR_F_BIT OR PSR_MODE_EL1h) vcpu) (\<lambda>v1.
     then_do (set_reg_or_die ok (regs_regs 1) 0 v1) (\<lambda>v2.
     then_do (set_reg_or_die ok (regs_regs 2) 0 v2) (\<lambda>v3.
     then_do (set_reg_or_die ok (regs_regs 3) 0 v3) (\<lambda>v4.
     if cpu_id v4 = 0 then
       then_do (set_reg_or_die ok (regs_regs 0) (dtb_guest_start v4) v4) (\<lambda>v5.
       set_reg_or_die ok regs_pc (kern_guest_start v5) v5)
     else Inr v4))))"

section \<open>Register layout constants\<close>

text \<open>
  Modelled from the spec: the register offsets and bit masks of \<open>linux/pci_regs.h\<close>
  and the entry layout of the MSI-X table, which the sources use by name and do not
  contain. The values are those of the PCI Local Bus specification.
\<close>

definition PCI_STATUS_CAP_LIST :: u16 where "PCI_STATUS_CAP_LIST = 0x10"
definition PCI_CAP_ID_MSI :: u8 where "PCI_CAP_ID_MSI = 0x05"
definition PCI_CAP_ID_EXP :: u8 where "PCI_CAP_ID_EXP = 0x10"
definition PCI_CAP_ID_MSIX :: u8 where "PCI_CAP_ID_MSIX = 0x11"
definition PCI_STD_HEADER_SIZEOF :: nat where "PCI_STD_HEADER_SIZEOF = 64"
definition PCI_DEV_CFG_SIZE_LEGACY :: nat where "PCI_DEV_CFG_SIZE_LEGACY = 256"
definition PCI_CAP_MSIX_SIZEOF :: nat where "PCI_CAP_MSIX_SIZEOF = 12"

definition PCI_MSI_FLAGS :: int where "PCI_MSI_FLAGS = 2"
definition PCI_MSI_FLAGS_ENABLE :: "'a::len word" where "PCI_MSI_FLAGS_ENABLE = 0x0001"
definition PCI_MSI_FLAGS_QMASK :: "'a::len word" where "PCI_MSI_FLAGS_QMASK = 0x000e"
definition PCI_MSI_FLAGS_QSIZE :: "'a::len word" where "PCI_MSI_FLAGS_QSIZE = 0x0070"
definition PCI_MSI_FLAGS_64BIT :: "'a::len word" where "PCI_MSI_FLAGS_64BIT = 0x0080"
definition PCI_MSI_FLAGS_MASKBIT :: "'a::len word" where "PCI_MSI_FLAGS_MASKBIT = 0x0100"
definition PCI_MSI_MASK_32 :: int where "PCI_MSI_MASK_32 = 12"
definition PCI_MSI_MASK_64 :: int where "PCI_MSI_MASK_64 = 16"

definition PCI_MSIX_FLAGS :: int where "PCI_MSIX_FLAGS = 2"
definition PCI_MSIX_FLAGS_QSIZE :: u16 where "PCI_MSIX_FLAGS_QSIZE = 0x07FF"
definition PCI_MSIX_FLAGS_MASKALL :: u16 where "PCI_MSIX_FLAGS_MASKALL = 0x4000"
definition PCI_MSIX_FLAGS_ENABLE :: u16 where "PCI_MSIX_FLAGS_ENABLE = 0x8000"
definition PCI_MSIX_TABLE_BIR :: u32 where "PCI_MSIX_TABLE_BIR = 0x00000007"
definition PCI_MSIX_ENTRY_SIZE :: nat where "PCI_MSIX_ENTRY_SIZE = 16"
definition PCI_MSIX_ENTRY_VECTOR_CTRL :: nat where "PCI_MSIX_ENTRY_VECTOR_CTRL = 12"
definition PCI_MSIX_ENTRY_CTRL_MASKBIT :: u32 where "PCI_MSIX_ENTRY_CTRL_MASKBIT = 0x00000001"

text \<open>\<open>vfio/pci.c\<close> defines this one itself, for the distributions whose headers lack it.\<close>

definition PCI_CAP_EXP_RC_ENDPOINT_SIZEOF_V1 :: nat where
  "PCI_CAP_EXP_RC_ENDPOINT_SIZEOF_V1 = 12"

section \<open>Host and guest state flags (include/kvm/vfio.h, vfio/pci.c)\<close>

definition VFIO_PCI_MSI_STATE_ENABLED :: "'a::len word" where
  "VFIO_PCI_MSI_STATE_ENABLED = 2 ^ 0"
definition VFIO_PCI_MSI_STATE_MASKED :: "'a::len word" where
  "VFIO_PCI_MSI_STATE_MASKED = 2 ^ 1"
definition VFIO_PCI_MSI_STATE_EMPTY :: "'a::len word" where
  "VFIO_PCI_MSI_STATE_EMPTY = 2 ^ 2"

definition msi_is_enabled :: "'a::len word \<Rightarrow> bool" where
  "msi_is_enabled state \<longleftrightarrow> state AND VFIO_PCI_MSI_STATE_ENABLED \<noteq> 0"
definition msi_is_masked :: "'a::len word \<Rightarrow> bool" where
  "msi_is_masked state \<longleftrightarrow> state AND VFIO_PCI_MSI_STATE_MASKED \<noteq> 0"
definition msi_is_empty :: "'a::len word \<Rightarrow> bool" where
  "msi_is_empty state \<longleftrightarrow> state AND VFIO_PCI_MSI_STATE_EMPTY \<noteq> 0"

definition msi_update_state :: "'a::len word \<Rightarrow> bool \<Rightarrow> 'a word \<Rightarrow> 'a word" where
  "msi_update_state state val b = (if val then state OR b else state AND NOT b)"
definition msi_set_enabled :: "'a::len word \<Rightarrow> bool \<Rightarrow> 'a word" where
  "msi_set_enabled state val = msi_update_state state val VFIO_PCI_MSI_STATE_ENABLED"
definition msi_set_masked :: "'a::len word \<Rightarrow> bool \<Rightarrow> 'a word" where
  "msi_set_masked state val = msi_update_state state val VFIO_PCI_MSI_STATE_MASKED"
definition msi_set_empty :: "'a::len word \<Rightarrow> bool \<Rightarrow> 'a word" where
  "msi_set_empty state val = msi_update_state state val VFIO_PCI_MSI_STATE_EMPTY"

section \<open>Data model (include/kvm/msi.h, include/kvm/vfio.h)\<close>

record msi_msg =
  address_lo :: u32
  address_hi :: u32
  data :: u32

text \<open>
  \<open>struct msix_table\<close>, one 16-byte entry of the MSI-X table: the message and the
  vector control word.
\<close>

record msix_table =
  msg :: msi_msg
  ctrl :: u32

text \<open>
  The fields \<open>guest_state\<close> and \<open>host_state\<close> exist in both the vector and the
  capability; the capability's are written \<open>cap_guest_state\<close> and
  \<open>cap_host_state\<close> here. A file descriptor and a GSI are C \<open>int\<close>s that never
  take part in arithmetic; they are integers.
\<close>

record vfio_pci_msi_entry =
  config :: msix_table
  gsi :: int
  eventfd :: int
  guest_state :: u32
  host_state :: u32

datatype irq_index =
  VFIO_PCI_INTX_IRQ_INDEX | VFIO_PCI_MSI_IRQ_INDEX | VFIO_PCI_MSIX_IRQ_INDEX

text \<open>
  \<open>struct vfio_pci_msi_common\<close>. The array \<open>entries\<close> is allocated with exactly
  \<open>nr_entries\<close> slots and neither changes afterwards, so the count is the length of
  the list. \<open>irq_set_eventfds\<close> is the array of descriptors that follows the header of
  the pre-allocated \<open>irq_set\<close> buffer. The mutex is not modelled: the handlers run
  one at a time here.
\<close>

record vfio_pci_msi_common =
  pos :: nat
  cap_guest_state :: u8
  cap_host_state :: u8
  info_index :: irq_index
  irq_set_eventfds :: "int list"
  entries :: "vfio_pci_msi_entry list"

definition nr_entries :: "vfio_pci_msi_common \<Rightarrow> nat" where
  "nr_entries m = length (entries m)"

record vfio_pci_msix_table =
  table_size :: nat
  table_bar :: nat
  table_guest_phys_addr :: u32

record vfio_pci_msix_pba =
  pba_size :: nat
  pba_bar :: nat
  pba_guest_phys_addr :: u32

section \<open>The host: VFIO device fd, KVM and the kernel\<close>

text \<open>
  The flags of a \<open>struct vfio_irq_set\<close> are one data kind and one action.
\<close>

datatype irq_set_data =
  VFIO_IRQ_SET_DATA_NONE | VFIO_IRQ_SET_DATA_BOOL | VFIO_IRQ_SET_DATA_EVENTFD
datatype irq_set_action =
  VFIO_IRQ_SET_ACTION_MASK | VFIO_IRQ_SET_ACTION_UNMASK | VFIO_IRQ_SET_ACTION_TRIGGER

record vfio_irq_set =
  set_data :: irq_set_data
  set_action :: irq_set_action
  set_index :: irq_index
  set_start :: nat
  set_count :: nat
  set_eventfds :: "int list"

text \<open>Every call that leaves the process, with its arguments.\<close>

datatype host_call =
  VFIO_DEVICE_SET_IRQS vfio_irq_set
| EVENTFD
| IRQ_ADD_MSIX_ROUTE msi_msg
| IRQ_UPDATE_MSIX_ROUTE int msi_msg
| IRQ_ADD_IRQFD int int int
| IRQ_DEL_IRQFD int int
| CLOSE int
| PWRITE_CONFIG u16 "u8 list"
| PREAD_CONFIG u16 nat

text \<open>
  The host answers each call: \<open>env h c\<close> is the return value of call \<open>c\<close> when
  \<open>h\<close> is the history, the calls made before it with their return values. Nothing is
  assumed about it here.
\<close>

type_synonym host_history = "(host_call \<times> int) list"
type_synonym host_env = "host_history \<Rightarrow> host_call \<Rightarrow> int"

text \<open>
  \<open>struct vfio_device\<close> with its \<open>struct vfio_pci_device\<close>, restricted to what the
  interrupt code reads and writes: the 256 bytes of the virtual configuration space
  \<open>hdr\<close>, the modes, the INTx descriptors and the two capabilities. Three fields stand
  for the world outside: \<open>irqfds\<close>, the (gsi, eventfd) pairs bound in KVM by
  \<open>irq__add_irqfd\<close> and not yet removed by \<open>irq__del_irqfd\<close>; \<open>host_calls\<close>, the
  calls made so far with their results; and \<open>dev_log\<close>, the messages printed.
\<close>

record vfio_device =
  hdr :: "u8 list"
  irq_modes :: u64
  intx_fd :: int
  unmask_fd :: int
  intx_gsi :: u32
  msi :: vfio_pci_msi_common
  msix :: vfio_pci_msi_common
  msix_table :: vfio_pci_msix_table
  msix_pba :: vfio_pci_msix_pba
  irqfds :: "(int \<times> int) set"
  host_calls :: host_history
  dev_log :: "string list"

definition VFIO_PCI_IRQ_MODE_INTX :: u64 where "VFIO_PCI_IRQ_MODE_INTX = 2 ^ 0"
definition VFIO_PCI_IRQ_MODE_MSI :: u64 where "VFIO_PCI_IRQ_MODE_MSI = 2 ^ 1"
definition VFIO_PCI_IRQ_MODE_MSIX :: u64 where "VFIO_PCI_IRQ_MODE_MSIX = 2 ^ 2"

definition host :: "host_env \<Rightarrow> host_call \<Rightarrow> vfio_device \<Rightarrow> int \<times> vfio_device" where
  "host env c vdev =
     (env (host_calls vdev) c,
      vdev\<lparr>host_calls := host_calls vdev @ [(c, env (host_calls vdev) c)]\<rparr>)"

definition pr :: "string \<Rightarrow> vfio_device \<Rightarrow> vfio_device" where
  "pr m vdev = vdev\<lparr>dev_log := dev_log vdev @ [m]\<rparr>"

text \<open>
  \<open>irq__add_irqfd\<close> returns what the \<open>KVM_IRQFD\<close> ioctl returns, 0 or -1; the
  binding exists when it returned 0. \<open>irq__del_irqfd\<close> returns nothing and removes the
  binding.
\<close>

definition irq__add_irqfd ::
  "host_env \<Rightarrow> int \<Rightarrow> int \<Rightarrow> int \<Rightarrow> vfio_device \<Rightarrow> int \<times> vfio_device" where
  "irq__add_irqfd env g trigger_fd resample_fd vdev =
     (case host env (IRQ_ADD_IRQFD g trigger_fd resample_fd) vdev of (r, vdev1) \<Rightarrow>
        if r < 0 then (-1, vdev1)
        else (0, vdev1\<lparr>irqfds := insert (g, trigger_fd) (irqfds vdev1)\<rparr>))"

definition irq__del_irqfd :: "host_env \<Rightarrow> int \<Rightarrow> int \<Rightarrow> vfio_device \<Rightarrow> vfio_device" where
  "irq__del_irqfd env g fd vdev =
     (case host env (IRQ_DEL_IRQFD g fd) vdev of (r, vdev1) \<Rightarrow>
        vdev1\<lparr>irqfds := irqfds vdev1 - {(g, fd)}\<rparr>)"

definition close_fd :: "host_env \<Rightarrow> int \<Rightarrow> vfio_device \<Rightarrow> vfio_device" where
  "close_fd env fd vdev = snd (host env (CLOSE fd) vdev)"

section \<open>INTx (vfio/pci.c)\<close>

definition intx_disarm_request :: vfio_irq_set where
  "intx_disarm_request =
     \<lparr>set_data = VFIO_IRQ_SET_DATA_NONE, set_action = VFIO_IRQ_SET_ACTION_TRIGGER,
      set_index = VFIO_PCI_INTX_IRQ_INDEX, set_start = 0, set_count = 0,
      set_eventfds = []\<rparr>"

text \<open>
  \<open>vfio_pci_disable_intx\<close>. The result of the \<open>SET_IRQS\<close> ioctl is not looked at.
  The \<open>pr_debug\<close> line depends on the log level and is left out.
\<close>

definition vfio_pci_disable_intx :: "host_env \<Rightarrow> vfio_device \<Rightarrow> vfio_device" where
  "vfio_pci_disable_intx env vdev =
     (if intx_fd vdev = -1 then vdev
      else
        let vdev1 = snd (host env (VFIO_DEVICE_SET_IRQS intx_disarm_request) vdev);
            vdev2 = irq__del_irqfd env (sint (intx_gsi vdev)) (intx_fd vdev) vdev1;
            vdev3 = close_fd env (intx_fd vdev) vdev2;
            vdev4 = close_fd env (unmask_fd vdev) vdev3
        in vdev4\<lparr>intx_fd := -1\<rparr>)"

definition intx_request :: "irq_set_action \<Rightarrow> int \<Rightarrow> vfio_irq_set" where
  "intx_request action fd =
     \<lparr>set_data = VFIO_IRQ_SET_DATA_EVENTFD, set_action = action,
      set_index = VFIO_PCI_INTX_IRQ_INDEX, set_start = 0, set_count = 1,
      set_eventfds = [fd]\<rparr>"

text \<open>The three exits of \<open>vfio_pci_enable_intx\<close> through its error labels.\<close>

definition err_close :: "host_env \<Rightarrow> int \<Rightarrow> int \<Rightarrow> vfio_device \<Rightarrow> vfio_device" where
  "err_close env trigger_fd unmask vdev =
     close_fd env unmask (close_fd env trigger_fd vdev)"

definition err_delete_line ::
  "host_env \<Rightarrow> int \<Rightarrow> int \<Rightarrow> int \<Rightarrow> vfio_device \<Rightarrow> vfio_device" where
  "err_delete_line env g trigger_fd unmask vdev =
     err_close env trigger_fd unmask (irq__del_irqfd env g trigger_fd vdev)"

definition err_remove_event ::
  "host_env \<Rightarrow> int \<Rightarrow> int \<Rightarrow> int \<Rightarrow> vfio_device \<Rightarrow> vfio_device" where
  "err_remove_event env g trigger_fd unmask vdev =
     err_delete_line env g trigger_fd unmask
       (snd (host env (VFIO_DEVICE_SET_IRQS
          ((intx_request VFIO_IRQ_SET_ACTION_TRIGGER trigger_fd)
             \<lparr>set_data := VFIO_IRQ_SET_DATA_NONE, set_count := 0\<rparr>)) vdev))"

definition vfio_pci_enable_intx :: "host_env \<Rightarrow> vfio_device \<Rightarrow> int \<times> vfio_device" where
  "vfio_pci_enable_intx env vdev =
     (if intx_fd vdev \<noteq> -1 then (0, vdev)
      else case host env EVENTFD vdev of (trigger_fd, vdev1) \<Rightarrow>
        if trigger_fd < 0
        then (trigger_fd, pr ''failed to create trigger eventfd'' vdev1)
        else case host env EVENTFD vdev1 of (unmask, vdev2) \<Rightarrow>
          if unmask < 0
          then (unmask, close_fd env trigger_fd
                  (pr ''failed to create unmask eventfd'' vdev2))
          else case irq__add_irqfd env (sint (intx_gsi vdev)) trigger_fd unmask vdev2 of
            (ret, vdev3) \<Rightarrow>
            if ret \<noteq> 0 then (ret, err_close env trigger_fd unmask vdev3)
            else case host env (VFIO_DEVICE_SET_IRQS
                  (intx_request VFIO_IRQ_SET_ACTION_TRIGGER trigger_fd)) vdev3 of
              (ret, vdev4) \<Rightarrow>
              if ret < 0
              then (ret, err_delete_line env (sint (intx_gsi vdev)) trigger_fd unmask
                      (pr ''failed to setup VFIO IRQ'' vdev4))
              else case host env (VFIO_DEVICE_SET_IRQS
                    (intx_request VFIO_IRQ_SET_ACTION_UNMASK unmask)) vdev4 of
                (ret, vdev5) \<Rightarrow>
                if ret < 0
                then (ret, err_remove_event env (sint (intx_gsi vdev)) trigger_fd unmask
                        (pr ''failed to setup unmask IRQ'' vdev5))
                else (0, vdev5\<lparr>intx_fd := trigger_fd, unmask_fd := unmask\<rparr>))"

section \<open>The MSI/MSI-X state machine (vfio/pci.c)\<close>

text \<open>\<open>msix ? &pdev->msix : &pdev->msi\<close>, to read and to update.\<close>

definition msis :: "bool \<Rightarrow> vfio_device \<Rightarrow> vfio_pci_msi_common" where
  "msis is_msix vdev = (if is_msix then msix vdev else msi vdev)"

definition msis_update ::
  "bool \<Rightarrow> (vfio_pci_msi_common \<Rightarrow> vfio_pci_msi_common) \<Rightarrow> vfio_device \<Rightarrow> vfio_device" where
  "msis_update is_msix f vdev =
     (if is_msix then vdev\<lparr>msix := f (msix vdev)\<rparr> else vdev\<lparr>msi := f (msi vdev)\<rparr>)"

text \<open>\<open>entry->gsi >= 0 ? entry->eventfd : -1\<close>\<close>

definition entry_fd :: "vfio_pci_msi_entry \<Rightarrow> int" where
  "entry_fd entry = (if gsi entry \<ge> 0 then eventfd entry else -1)"

definition multi_request :: "irq_index \<Rightarrow> int list \<Rightarrow> vfio_irq_set" where
  "multi_request idx fds =
     \<lparr>set_data = VFIO_IRQ_SET_DATA_EVENTFD, set_action = VFIO_IRQ_SET_ACTION_TRIGGER,
      set_index = idx, set_start = 0, set_count = length fds, set_eventfds = fds\<rparr>"

definition single_request :: "irq_index \<Rightarrow> nat \<Rightarrow> int \<Rightarrow> vfio_irq_set" where
  "single_request idx i fd =
     \<lparr>set_data = VFIO_IRQ_SET_DATA_EVENTFD, set_action = VFIO_IRQ_SET_ACTION_TRIGGER,
      set_index = idx, set_start = i, set_count = 1, set_eventfds = [fd]\<rparr>"

definition disarm_request :: "irq_index \<Rightarrow> vfio_irq_set" where
  "disarm_request idx =
     \<lparr>set_data = VFIO_IRQ_SET_DATA_NONE, set_action = VFIO_IRQ_SET_ACTION_TRIGGER,
      set_index = idx, set_start = 0, set_count = 0, set_eventfds = []\<rparr>"

text \<open>
  The last loop of \<open>vfio_pci_enable_msis\<close>, "update individual vectors", over the
  indices still to visit; \<open>ret\<close> is the value the function returns when the loop ends.
\<close>

fun update_vectors ::
  "host_env \<Rightarrow> bool \<Rightarrow> nat list \<Rightarrow> int \<Rightarrow> vfio_device \<Rightarrow> int \<times> vfio_device" where
  "update_vectors env is_msix [] ret vdev = (ret, vdev)"
| "update_vectors env is_msix (i # rest) ret vdev =
     (let fd = entry_fd (entries (msis is_msix vdev) ! i) in
      if fd = irq_set_eventfds (msis is_msix vdev) ! i
      then update_vectors env is_msix rest ret vdev
      else case host env (VFIO_DEVICE_SET_IRQS
             (single_request (info_index (msis is_msix vdev)) i fd)) vdev of
        (ret1, vdev1) \<Rightarrow>
          if ret1 < 0 then (ret1, pr ''VFIO_DEVICE_SET_IRQS(single)'' vdev1)
          else update_vectors env is_msix rest ret1
            (msis_update is_msix (\<lambda>m.
               m\<lparr>irq_set_eventfds := (irq_set_eventfds m)[i := fd],
                 cap_host_state :=
                   (if msi_is_empty (cap_host_state m) \<and> fd \<ge> 0
                    then msi_set_empty (cap_host_state m) False
                    else cap_host_state m)\<rparr>) vdev1))"

definition vfio_pci_enable_msis ::
  "host_env \<Rightarrow> bool \<Rightarrow> vfio_device \<Rightarrow> int \<times> vfio_device" where
  "vfio_pci_enable_msis env is_msix vdev =
     (if \<not> msi_is_enabled (cap_guest_state (msis is_msix vdev)) then (0, vdev)
      else
        let vdev1 = (if irq_modes vdev AND VFIO_PCI_IRQ_MODE_INTX \<noteq> 0
                     then vfio_pci_disable_intx env vdev else vdev);
            m = msis is_msix vdev1
        in
        if \<not> msi_is_enabled (cap_host_state m) \<or>
           (\<not> msi_is_masked (cap_guest_state m) \<and> msi_is_empty (cap_host_state m))
        then
          let fds = map entry_fd (entries m);
              empty = (\<not> list_ex (\<lambda>fd. fd \<ge> 0) fds);
              vdev2 = msis_update is_msix (\<lambda>m. m\<lparr>irq_set_eventfds := fds\<rparr>) vdev1
          in case host env (VFIO_DEVICE_SET_IRQS (multi_request (info_index m) fds)) vdev2 of
            (ret, vdev3) \<Rightarrow>
              if ret < 0 then (ret, pr ''VFIO_DEVICE_SET_IRQS(multi)'' vdev3)
              else (0, msis_update is_msix (\<lambda>m.
                     m\<lparr>cap_host_state :=
                         msi_set_empty (msi_set_enabled (cap_host_state m) True) empty\<rparr>)
                       vdev3)
        else if msi_is_masked (cap_guest_state m) then (0, vdev1)
        else update_vectors env is_msix [0 ..< nr_entries m] 0 vdev1)"

definition vfio_pci_disable_msis ::
  "host_env \<Rightarrow> bool \<Rightarrow> vfio_device \<Rightarrow> int \<times> vfio_device" where
  "vfio_pci_disable_msis env is_msix vdev =
     (if \<not> msi_is_enabled (cap_host_state (msis is_msix vdev)) then (0, vdev)
      else case host env (VFIO_DEVICE_SET_IRQS
             (disarm_request (info_index (msis is_msix vdev)))) vdev of
        (ret, vdev1) \<Rightarrow>
          if ret < 0 then (ret, pr ''VFIO_DEVICE_SET_IRQS(NONE)'' vdev1)
          else
            let vdev2 = msis_update is_msix (\<lambda>m.
                  m\<lparr>cap_host_state :=
                      msi_set_empty (msi_set_enabled (cap_host_state m) False) True\<rparr>) vdev1
            in if irq_modes vdev2 AND VFIO_PCI_IRQ_MODE_INTX \<noteq> 0
               then case vfio_pci_enable_intx env vdev2 of
                 (ret2, vdev3) \<Rightarrow> ((if ret2 \<ge> 0 then 0 else ret2), vdev3)
               else ((if ret \<ge> 0 then 0 else ret), vdev2))"

text \<open>
  \<open>vfio_pci_update_msi_entry\<close>, on a copy of the entry that the caller stores back.
  Where the source returns \<open>-errno\<close> the model returns the negative result of the
  failed call: the callers look at the sign only.
\<close>

definition vfio_pci_update_msi_entry ::
  "host_env \<Rightarrow> vfio_pci_msi_entry \<Rightarrow> vfio_device \<Rightarrow>
   int \<times> vfio_pci_msi_entry \<times> vfio_device" where
  "vfio_pci_update_msi_entry env entry vdev =
     (case (if eventfd entry < 0
            then case host env EVENTFD vdev of (fd, vdev1) \<Rightarrow> (entry\<lparr>eventfd := fd\<rparr>, vdev1)
            else (entry, vdev)) of
        (entry1, vdev1) \<Rightarrow>
      if eventfd entry1 < 0
      then (eventfd entry1, entry1, pr ''cannot create eventfd'' vdev1)
      else case (if gsi entry1 < 0
                 then case host env (IRQ_ADD_MSIX_ROUTE (msg (config entry1))) vdev1 of
                   (ret, vdev2) \<Rightarrow>
                     if ret < 0 then (ret, entry1, pr ''cannot create MSI-X route'' vdev2)
                     else (0, entry1\<lparr>gsi := ret\<rparr>, vdev2)
                 else (0, entry1,
                       snd (host env (IRQ_UPDATE_MSIX_ROUTE (gsi entry1) (msg (config entry1)))
                              vdev1))) of
        (ret, entry2, vdev2) \<Rightarrow>
      if ret < 0 then (ret, entry2, vdev2)
      else if msi_is_masked (guest_state entry2) = msi_is_masked (host_state entry2)
      then (0, entry2, vdev2)
      else if msi_is_masked (host_state entry2)
      then case irq__add_irqfd env (gsi entry2) (eventfd entry2) (-1) vdev2 of
        (ret, vdev3) \<Rightarrow>
          if ret < 0 then (ret, entry2, pr ''cannot setup irqfd'' vdev3)
          else (0, entry2\<lparr>host_state :=
                  msi_set_masked (host_state entry2) (msi_is_masked (guest_state entry2))\<rparr>,
                vdev3)
      else (0, entry2\<lparr>host_state :=
              msi_set_masked (host_state entry2) (msi_is_masked (guest_state entry2))\<rparr>,
            irq__del_irqfd env (gsi entry2) (eventfd entry2) vdev2))"

section \<open>Bytes and words\<close>

text \<open>
  \<open>memcpy\<close> into and out of a struct sees its bytes. The hosts are little-endian:
  the least significant byte comes first.
\<close>

fun le_bytes :: "nat \<Rightarrow> 'a::len word \<Rightarrow> u8 list" where
  "le_bytes 0 w = []"
| "le_bytes (Suc n) w = ucast w # le_bytes n (drop_bit 8 w)"

fun le_word :: "u8 list \<Rightarrow> 'a::len word" where
  "le_word [] = 0"
| "le_word (b # bs) = ucast b OR push_bit 8 (le_word bs)"

text \<open>
  A field of \<open>n\<close> bytes at offset \<open>off\<close> of a block of bytes. The handlers below
  check the range before they read where the source's pointer can leave the block.
\<close>

definition rd :: "nat \<Rightarrow> nat \<Rightarrow> u8 list \<Rightarrow> 'a::len word" where
  "rd n off h = le_word (take n (drop off h))"

definition msix_table_bytes :: "msix_table \<Rightarrow> u8 list" where
  "msix_table_bytes c =
     le_bytes 4 (address_lo (msg c)) @ le_bytes 4 (address_hi (msg c)) @
     le_bytes 4 (data (msg c)) @ le_bytes 4 (ctrl c)"

definition msix_table_of_bytes :: "u8 list \<Rightarrow> msix_table" where
  "msix_table_of_bytes bs =
     \<lparr>msg = \<lparr>address_lo = rd 4 0 bs, address_hi = rd 4 4 bs, data = rd 4 8 bs\<rparr>,
      ctrl = rd 4 12 bs\<rparr>"

text \<open>\<open>memcpy(dst + off, src, n)\<close> on a block of bytes.\<close>

definition memcpy_into :: "u8 list \<Rightarrow> nat \<Rightarrow> u8 list \<Rightarrow> nat \<Rightarrow> u8 list" where
  "memcpy_into dst off src n = take off dst @ take n src @ drop (off + n) dst"

section \<open>The MSI-X table and capability handlers (vfio/pci.c)\<close>

definition set_msix_entry :: "nat \<Rightarrow> vfio_pci_msi_entry \<Rightarrow> vfio_device \<Rightarrow> vfio_device" where
  "set_msix_entry i entry vdev =
     vdev\<lparr>msix := (msix vdev)\<lparr>entries := (entries (msix vdev))[i := entry]\<rparr>\<rparr>"

definition set_msi_entry :: "nat \<Rightarrow> vfio_pci_msi_entry \<Rightarrow> vfio_device \<Rightarrow> vfio_device" where
  "set_msi_entry i entry vdev =
     vdev\<lparr>msi := (msi vdev)\<lparr>entries := (entries (msi vdev))[i := entry]\<rparr>\<rparr>"

text \<open>
  \<open>vfio_pci_msix_table_access\<close>. The buffer \<open>dat\<close> holds the \<open>len\<close> bytes of the
  access, so \<open>len\<close> is its length; the result is the buffer after the access and the
  device. The entry is \<open>entries[vector]\<close>, and the copy covers \<open>len\<close> bytes from
  \<open>field\<close> of its 16-byte \<open>config\<close>: the model stops where the index is not
  below \<open>nr_entries\<close> or the copy runs past \<open>config\<close>.
\<close>

definition vfio_pci_msix_table_access ::
  "host_env \<Rightarrow> u64 \<Rightarrow> u8 list \<Rightarrow> bool \<Rightarrow> vfio_device \<Rightarrow> error + (u8 list \<times> vfio_device)" where
  "vfio_pci_msix_table_access env addr dat is_write vdev =
     (let len = (of_nat (length dat) :: u32);
          offset = addr - ucast (table_guest_phys_addr (msix_table vdev))
      in
      if unat offset \<ge> table_size (msix_table vdev)
      then Inr (dat, pr ''access outside of the MSI-X table'' vdev)
      else
        let vector = unat offset div PCI_MSIX_ENTRY_SIZE;
            field = unat offset mod PCI_MSIX_ENTRY_SIZE
        in
        if (len \<noteq> 4 \<and> len \<noteq> 8) \<or> addr AND ucast (len - 1) \<noteq> 0
        then Inr (dat, pr ''invalid MSI-X table access'' vdev)
        else if vector \<ge> nr_entries (msix vdev) then Inl (OUT_OF_BOUNDS vector)
        else if field + unat len > PCI_MSIX_ENTRY_SIZE
        then Inl (OVERRUN (field + unat len))
        else
          let entry = entries (msix vdev) ! vector;
              bytes = msix_table_bytes (config entry)
          in
          if \<not> is_write
          then Inr (memcpy_into dat 0 (drop field bytes) (unat len), vdev)
          else
            let entry1 = entry\<lparr>config :=
                  msix_table_of_bytes (memcpy_into bytes field dat (unat len))\<rparr>
            in
            if field + unat len \<le> PCI_MSIX_ENTRY_VECTOR_CTRL
            then Inr (dat, set_msix_entry vector entry1 vdev)
            else
              let entry2 = entry1\<lparr>guest_state := msi_set_masked (guest_state entry1)
                    (ctrl (config entry1) AND PCI_MSIX_ENTRY_CTRL_MASKBIT \<noteq> 0)\<rparr>
              in
              case vfio_pci_update_msi_entry env entry2 vdev of (ret, entry3, vdev1) \<Rightarrow>
                let vdev2 = set_msix_entry vector entry3 vdev1;
                    vdev3 = (if ret < 0
                             then pr ''failed to configure MSIX vector'' vdev2 else vdev2)
                in
                case vfio_pci_enable_msis env True vdev3 of (ret2, vdev4) \<Rightarrow>
                  Inr (dat, if ret2 \<noteq> 0 then pr ''cannot enable MSIX'' vdev4 else vdev4))"

text \<open>
  \<open>vfio_pci_msix_cap_write\<close>: \<open>off\<close> is the offset of the write in configuration
  space, \<open>dat\<close> its \<open>sz\<close> bytes.
\<close>

definition vfio_pci_msix_cap_write ::
  "host_env \<Rightarrow> u16 \<Rightarrow> u8 list \<Rightarrow> vfio_device \<Rightarrow> vfio_device" where
  "vfio_pci_msix_cap_write env off dat vdev =
     (let sz = int (length dat);
          enable_pos = PCI_MSIX_FLAGS + 1;
          off1 = uint (off - of_nat (pos (msix vdev)))
      in
      if off1 > enable_pos \<or> off1 + sz \<le> enable_pos then vdev
      else
        let flags = (push_bit 8 (ucast (dat ! nat (enable_pos - off1))) :: u16);
            enable = (flags AND PCI_MSIX_FLAGS_ENABLE \<noteq> 0);
            vdev1 = vdev\<lparr>msix := (msix vdev)\<lparr>cap_guest_state :=
                      msi_set_enabled
                        (msi_set_masked (cap_guest_state (msix vdev))
                           (flags AND PCI_MSIX_FLAGS_MASKALL \<noteq> 0))
                        enable\<rparr>\<rparr>
        in
        if enable
        then case vfio_pci_enable_msis env True vdev1 of (ret, vdev2) \<Rightarrow>
               if ret \<noteq> 0 then pr ''cannot enable MSIX'' vdev2 else vdev2
        else case vfio_pci_disable_msis env True vdev1 of (ret, vdev2) \<Rightarrow>
               if ret \<noteq> 0 then pr ''cannot disable MSIX'' vdev2 else vdev2)"

text \<open>
  The second loop of \<open>vfio_pci_msi_vector_write\<close>, "update states if necessary". Its
  indices are below \<open>nr_entries\<close>. The test \<open>masked != msi_is_masked(entry->guest_state)\<close>
  compares the \<open>bool\<close> \<open>masked\<close>, 0 or 1 as an integer, with
  \<open>guest_state & VFIO_PCI_MSI_STATE_MASKED\<close>, which is 0 or 2: the two are equal only when
  both are 0, so the entry is updated whenever the mask bit is set or the vector is
  masked already.
\<close>

fun msi_mask_update :: "host_env \<Rightarrow> u32 \<Rightarrow> nat list \<Rightarrow> vfio_device \<Rightarrow> vfio_device" where
  "msi_mask_update env msk [] vdev = vdev"
| "msi_mask_update env msk (i # rest) vdev =
     (let masked = (msk AND push_bit i 1 \<noteq> 0);
          entry = entries (msi vdev) ! i
      in
      if masked \<or> msi_is_masked (guest_state entry)
      then case vfio_pci_update_msi_entry env
               (entry\<lparr>guest_state := msi_set_masked (guest_state entry) masked\<rparr>) vdev of
             (ret, entry1, vdev1) \<Rightarrow>
               msi_mask_update env msk rest (set_msi_entry i entry1 vdev1)
      else msi_mask_update env msk rest vdev)"

text \<open>
  \<open>vfio_pci_msi_vector_write\<close>: \<open>off\<close> is already relative to the capability. The
  \<open>ctrl\<close> word of the capability is read from the header at \<open>msi.pos + 2\<close>. Both
  loops shift an \<open>int\<close> by the index, \<open>!!msi_is_masked(...) << i\<close> and \<open>1 << i\<close>,
  for every index below \<open>nr_entries\<close>: with more than 32 entries (the reserved
  encodings of Multiple Message Capable give 64 and 128) the shift by 32 is undefined
  behaviour. The shift by 31 is taken with its two's complement result.
\<close>

definition vfio_pci_msi_vector_write ::
  "host_env \<Rightarrow> u16 \<Rightarrow> u8 list \<Rightarrow> vfio_device \<Rightarrow> error + int \<times> vfio_device" where
  "vfio_pci_msi_vector_write env off dat vdev =
     (let cap_ctrl = (rd 2 (pos (msi vdev) + 2) (hdr vdev) :: u16);
          sz = int (length dat)
      in
      if cap_ctrl AND PCI_MSI_FLAGS_MASKBIT = 0 then Inr (0, vdev)
      else
        let mask_pos = (if cap_ctrl AND PCI_MSI_FLAGS_64BIT \<noteq> 0
                        then PCI_MSI_MASK_64 else PCI_MSI_MASK_32)
        in
        if uint off \<ge> mask_pos + 4 \<or> uint off + sz \<le> mask_pos then Inr (0, vdev)
        else if nr_entries (msi vdev) > 32 then Inl (UNDEFINED_SHIFT 32)
        else
          let msk0 = fold (\<lambda>i m. m OR
                  push_bit i (if msi_is_masked (guest_state (entries (msi vdev) ! i))
                              then 1 else 0))
                [0 ..< nr_entries (msi vdev)] (0 :: u32);
              start = max (uint off) mask_pos;
              limit = min (uint off + sz) (mask_pos + 4);
              msk = le_word (memcpy_into (le_bytes 4 msk0) (nat (start - mask_pos))
                       (drop (nat (start - uint off)) dat) (nat (limit - start)))
          in Inr (1, msi_mask_update env msk [0 ..< nr_entries (msi vdev)] vdev))"

text \<open>
  The loop of \<open>vfio_pci_msi_cap_write\<close> that creates routes for the requested
  vectors, \<open>for (i = 0; i < nr_vectors; i++)\<close>, over the indices still to visit. It
  takes \<open>&pdev->msi.entries[i]\<close> whatever \<open>i\<close> is: an index that is not below
  \<open>nr_entries\<close> is past the allocated array.
\<close>

fun msi_route_vectors ::
  "host_env \<Rightarrow> nat \<Rightarrow> nat list \<Rightarrow> msi_msg \<Rightarrow> vfio_device \<Rightarrow> error + vfio_device" where
  "msi_route_vectors env nr_vectors [] m vdev = Inr vdev"
| "msi_route_vectors env nr_vectors (i # rest) m vdev =
     (if i \<ge> nr_entries (msi vdev) then Inl (OUT_OF_BOUNDS i)
      else
        let m1 = m\<lparr>data := (data m AND NOT (of_nat nr_vectors - 1)) OR of_nat i\<rparr>;
            entry = entries (msi vdev) ! i;
            entry1 = entry\<lparr>config := (config entry)\<lparr>msg := m1\<rparr>\<rparr>
        in case vfio_pci_update_msi_entry env entry1 vdev of (ret, entry2, vdev1) \<Rightarrow>
             msi_route_vectors env nr_vectors rest m1 (set_msi_entry i entry2 vdev1))"

text \<open>\<open>nr_vectors = 1 << ((ctrl & PCI_MSI_FLAGS_QSIZE) >> 4)\<close>\<close>

definition msi_nr_vectors :: "u8 \<Rightarrow> nat" where
  "msi_nr_vectors c = 2 ^ unat (drop_bit 4 (c AND PCI_MSI_FLAGS_QSIZE))"

text \<open>
  \<open>vfio_pci_msi_cap_write\<close>. The message is read from the capability in the header:
  \<open>address_lo\<close> at +4, then for a 64-bit capability \<open>address_hi\<close> at +8 and the
  16-bit \<open>data\<close> at +12, for a 32-bit one the 16-bit \<open>data\<close> at +8.
\<close>

definition vfio_pci_msi_cap_write ::
  "host_env \<Rightarrow> u16 \<Rightarrow> u8 list \<Rightarrow> vfio_device \<Rightarrow> error + vfio_device" where
  "vfio_pci_msi_cap_write env off dat vdev =
     (let p = pos (msi vdev);
          off1 = off - of_nat p;
          sz = int (length dat)
      in
      if p + 4 > length (hdr vdev) then Inl (OVERRUN (p + 4))
      else then_do (vfio_pci_msi_vector_write env off1 dat vdev) (\<lambda>(r, vdev1).
        if r \<noteq> 0 then Inr vdev1
        else if uint off1 > PCI_MSI_FLAGS \<or> uint off1 + sz \<le> PCI_MSI_FLAGS then Inr vdev1
        else
          let c = dat ! nat (PCI_MSI_FLAGS - uint off1);
              vdev2 = vdev1\<lparr>msi := (msi vdev1)\<lparr>cap_guest_state :=
                        msi_set_enabled (cap_guest_state (msi vdev1))
                          (c AND PCI_MSI_FLAGS_ENABLE \<noteq> 0)\<rparr>\<rparr>
          in
          if \<not> msi_is_enabled (cap_guest_state (msi vdev2))
          then Inr (snd (vfio_pci_disable_msis env False vdev2))
          else
            let nr_vectors = msi_nr_vectors c;
                is64 = ((rd 2 (p + 2) (hdr vdev2) :: u16) AND PCI_MSI_FLAGS_64BIT \<noteq> 0)
            in
            if p + (if is64 then 14 else 10) > length (hdr vdev2)
            then Inl (OVERRUN (p + (if is64 then 14 else 10)))
            else
              let m = (if is64
                       then \<lparr>address_lo = rd 4 (p + 4) (hdr vdev2),
                             address_hi = rd 4 (p + 8) (hdr vdev2),
                             data = ucast (rd 2 (p + 12) (hdr vdev2) :: u16)\<rparr>
                       else \<lparr>address_lo = rd 4 (p + 4) (hdr vdev2),
                             address_hi = 0,
                             data = ucast (rd 2 (p + 8) (hdr vdev2) :: u16)\<rparr>)
              in then_do (msi_route_vectors env nr_vectors [0 ..< nr_vectors] m vdev2)
                   (\<lambda>vdev3.
                      case vfio_pci_enable_msis env False vdev3 of (ret, vdev4) \<Rightarrow>
                        Inr (if ret \<noteq> 0 then pr ''cannot enable MSI'' vdev4 else vdev4))))"

section \<open>Set-up of the capabilities and of the interrupts (vfio/pci.c)\<close>

text \<open>
  Modelled from the spec: the macros \<open>ALIGN\<close> and \<open>DIV_ROUND_UP\<close> of the kernel
  headers, the error numbers of \<open>errno.h\<close> and two more masks of
  \<open>linux/pci_regs.h\<close>, none of them in the sources. \<open>ALIGN(x, a)\<close> rounds \<open>x\<close>
  up to a multiple of the power of two \<open>a\<close>; the spec describes the table size as
  "rounded up to 8-byte multiple of 16 N".
\<close>

definition ALIGN :: "u64 \<Rightarrow> u64 \<Rightarrow> u64" where
  "ALIGN x a = (x + (a - 1)) AND NOT (a - 1)"
definition DIV_ROUND_UP :: "u64 \<Rightarrow> u64 \<Rightarrow> u64" where
  "DIV_ROUND_UP n d = (n + d - 1) div d"
definition ENOMEM :: int where "ENOMEM = 12"
definition ENODEV :: int where "ENODEV = 19"
definition EINVAL :: int where "EINVAL = 22"
definition PCI_MSIX_PBA_OFFSET :: u32 where "PCI_MSIX_PBA_OFFSET = 0xFFFFFFF8"

text \<open>
  What the set-up code asks of the platform and of the device, and does not decide:
  the answers of \<open>VFIO_DEVICE_GET_REGION_INFO\<close> (return value and size of a region)
  and of \<open>VFIO_DEVICE_GET_IRQ_INFO\<close> (return value, count, and the EVENTFD and
  AUTOMASKED flags), the blocks that \<open>pci_get_mmio_block\<close> hands out (0 when the
  space is exhausted), the line that \<open>pci__assign_irq\<close> assigns, and the constants
  \<open>MAX_PAGE_SIZE\<close> and \<open>KVM_IRQ_OFFSET\<close> of the architecture.
\<close>

record platform =
  region_info :: "nat \<Rightarrow> int \<times> u64"
  irq_info :: "irq_index \<Rightarrow> int \<times> nat \<times> bool \<times> bool"
  pci_get_mmio_block :: "u64 \<Rightarrow> u32"
  assigned_irq_line :: u8
  MAX_PAGE_SIZE :: u64
  KVM_IRQ_OFFSET :: u32

definition is_power_of_two :: "u64 \<Rightarrow> bool" where
  "is_power_of_two x = (if x > 0 then x AND (x - 1) = 0 else False)"

definition vfio_pci_get_region_info :: "platform \<Rightarrow> nat \<Rightarrow> int \<times> u64" where
  "vfio_pci_get_region_info plat idx =
     (case region_info plat idx of (ret, sz) \<Rightarrow>
        if ret \<noteq> 0 then ((if ret < 0 then ret else - ret), sz)
        else if sz \<noteq> 0 \<and> \<not> is_power_of_two sz then (- EINVAL, sz)
        else (0, sz))"

text \<open>A slot of \<open>calloc\<close>: every field zero.\<close>

definition zero_entry :: vfio_pci_msi_entry where
  "zero_entry =
     \<lparr>config = \<lparr>msg = \<lparr>address_lo = 0, address_hi = 0, data = 0\<rparr>, ctrl = 0\<rparr>,
      gsi = 0, eventfd = 0, guest_state = 0, host_state = 0\<rparr>"

text \<open>\<open>nr_entries = (msix->ctrl & PCI_MSIX_FLAGS_QSIZE) + 1\<close>\<close>

definition msix_nr_entries :: "u16 \<Rightarrow> nat" where
  "msix_nr_entries c = unat (c AND PCI_MSIX_FLAGS_QSIZE) + 1"

text \<open>
  \<open>vfio_pci_create_msix_table\<close>. The capability is read from the header at
  \<open>msix.pos\<close>: \<open>ctrl\<close> at +2, \<open>table_offset\<close> at +4, \<open>pba_offset\<close> at +8. A
  failing \<open>calloc\<close> is not modelled. The two \<open>die\<close> calls end the process.
\<close>

definition vfio_pci_create_msix_table ::
  "platform \<Rightarrow> vfio_device \<Rightarrow> error + (int \<times> vfio_device)" where
  "vfio_pci_create_msix_table plat vdev =
     (let p = pos (msix vdev);
          table_offset = (rd 4 (p + 4) (hdr vdev) :: u32);
          pba_offset = (rd 4 (p + 8) (hdr vdev) :: u32);
          n = msix_nr_entries (rd 2 (p + 2) (hdr vdev));
          tbar = unat (table_offset AND PCI_MSIX_TABLE_BIR);
          pbar = unat (pba_offset AND PCI_MSIX_TABLE_BIR);
          tsize = ALIGN (of_nat n * of_nat PCI_MSIX_ENTRY_SIZE) 8;
          psize = ALIGN (DIV_ROUND_UP (of_nat n) 64) 8;
          new_entries = replicate n
            (zero_entry\<lparr>config := (config zero_entry)\<lparr>ctrl := PCI_MSIX_ENTRY_CTRL_MASKBIT\<rparr>\<rparr>);
          vdev1 = vdev\<lparr>msix_table := (msix_table vdev)\<lparr>table_size := unat tsize,
                                                      table_bar := tbar\<rparr>,
                      msix_pba := (msix_pba vdev)\<lparr>pba_size := unat psize, pba_bar := pbar\<rparr>\<rparr>
      in
      case vfio_pci_get_region_info plat tbar of (ret, info_size) \<Rightarrow>
        if ret \<noteq> 0 then Inr (ret, vdev1)
        else if info_size = 0 then Inr (- EINVAL, vdev1)
        else
          let taddr = pci_get_mmio_block plat (ALIGN info_size (MAX_PAGE_SIZE plat));
              vdev2 = vdev1\<lparr>msix_table :=
                        (msix_table vdev1)\<lparr>table_guest_phys_addr := taddr\<rparr>\<rparr>
          in
          if taddr = 0 then Inr (- ENOMEM, pr ''cannot allocate MMIO space'' vdev2)
          else if tbar = pbar then
            let pba_bar_offset = pba_offset AND PCI_MSIX_PBA_OFFSET in
            if tsize > ucast pba_bar_offset then Inl DIE
            else if ucast pba_bar_offset + psize > info_size then Inl DIE
            else Inr (0, vdev2\<lparr>msix_pba := (msix_pba vdev2)\<lparr>pba_guest_phys_addr :=
                                     taddr + pba_bar_offset\<rparr>,
                             msix := (msix vdev2)\<lparr>entries := new_entries\<rparr>\<rparr>)
          else
            case vfio_pci_get_region_info plat pbar of (ret, info_size) \<Rightarrow>
              if ret \<noteq> 0 then Inr (ret, vdev2)
              else if info_size = 0 then Inr (- EINVAL, vdev2)
              else
                let paddr = pci_get_mmio_block plat (ALIGN info_size (MAX_PAGE_SIZE plat));
                    vdev3 = vdev2\<lparr>msix_pba :=
                              (msix_pba vdev2)\<lparr>pba_guest_phys_addr := paddr\<rparr>\<rparr>
                in
                if paddr = 0 then Inr (- ENOMEM, pr ''cannot allocate MMIO space'' vdev3)
                else Inr (0, vdev3\<lparr>msix := (msix vdev3)\<lparr>entries := new_entries\<rparr>\<rparr>))"

text \<open>\<open>nr_entries = 1 << ((cap->ctrl & PCI_MSI_FLAGS_QMASK) >> 1)\<close>\<close>

definition msi_nr_entries :: "u16 \<Rightarrow> nat" where
  "msi_nr_entries c = 2 ^ unat (drop_bit 1 (c AND PCI_MSI_FLAGS_QMASK))"

definition vfio_pci_create_msi_cap :: "vfio_device \<Rightarrow> int \<times> vfio_device" where
  "vfio_pci_create_msi_cap vdev =
     (0, vdev\<lparr>msi := (msi vdev)\<lparr>entries :=
            replicate (msi_nr_entries (rd 2 (pos (msi vdev) + 2) (hdr vdev))) zero_entry\<rparr>\<rparr>)"

text \<open>
  \<open>vfio_pci_init_msis\<close>. Raising the limit on open files and a failing \<open>malloc\<close>
  are not modelled.
\<close>

definition vfio_pci_init_msis :: "platform \<Rightarrow> bool \<Rightarrow> vfio_device \<Rightarrow> int \<times> vfio_device" where
  "vfio_pci_init_msis plat is_msix vdev =
     (case irq_info plat (info_index (msis is_msix vdev)) of
        (ret, info_count, info_eventfd, info_automasked) \<Rightarrow>
        if ret \<noteq> 0 \<or> info_count = 0
        then (- ENODEV, pr ''no MSI reported by VFIO'' vdev)
        else if \<not> info_eventfd
        then (- EINVAL, pr ''interrupt not EVENTFD capable'' vdev)
        else if info_count \<noteq> nr_entries (msis is_msix vdev)
        then (- EINVAL, pr ''invalid number of MSIs reported by VFIO'' vdev)
        else (0, msis_update is_msix (\<lambda>m.
               m\<lparr>irq_set_eventfds := replicate (nr_entries m) (-1),
                 entries := map (\<lambda>entry.
                   entry\<lparr>gsi := -1, eventfd := -1,
                         guest_state := msi_set_masked (guest_state entry) False,
                         host_state := msi_set_masked (host_state entry) True\<rparr>)
                   (entries m)\<rparr>) vdev))"

text \<open>
  \<open>vfio_pci_init_intx\<close>. \<open>hdr.irq_line\<close> is the byte at 0x3C of the header.
\<close>

definition vfio_pci_init_intx :: "platform \<Rightarrow> vfio_device \<Rightarrow> int \<times> vfio_device" where
  "vfio_pci_init_intx plat vdev =
     (case irq_info plat VFIO_PCI_INTX_IRQ_INDEX of
        (ret, info_count, info_eventfd, info_automasked) \<Rightarrow>
        if ret \<noteq> 0 \<or> info_count = 0
        then (- ENODEV, pr ''no INTx reported by VFIO'' vdev)
        else if \<not> info_eventfd
        then (- EINVAL, pr ''interrupt not eventfd capable'' vdev)
        else if \<not> info_automasked
        then (- EINVAL, pr ''INTx interrupt not AUTOMASKED'' vdev)
        else (0, vdev\<lparr>intx_gsi := ucast (rd 1 0x3C (hdr vdev) :: u8) - KVM_IRQ_OFFSET plat,
                     intx_fd := -1\<rparr>))"

text \<open>
  \<open>pci__assign_irq\<close> is not in the sources; it stores the assigned line in
  \<open>hdr.irq_line\<close>.
\<close>

definition pci__assign_irq :: "platform \<Rightarrow> vfio_device \<Rightarrow> vfio_device" where
  "pci__assign_irq plat vdev = vdev\<lparr>hdr := (hdr vdev)[0x3C := assigned_irq_line plat]\<rparr>"

definition vfio_pci_configure_dev_irqs ::
  "host_env \<Rightarrow> platform \<Rightarrow> vfio_device \<Rightarrow> int \<times> vfio_device" where
  "vfio_pci_configure_dev_irqs env plat vdev =
     (case (if irq_modes vdev AND VFIO_PCI_IRQ_MODE_MSIX \<noteq> 0
            then vfio_pci_init_msis plat True
                   (vdev\<lparr>msix := (msix vdev)\<lparr>info_index := VFIO_PCI_MSIX_IRQ_INDEX\<rparr>\<rparr>)
            else (0, vdev)) of
        (ret, vdev1) \<Rightarrow>
      if ret \<noteq> 0 then (ret, vdev1)
      else case (if irq_modes vdev1 AND VFIO_PCI_IRQ_MODE_MSI \<noteq> 0
                 then vfio_pci_init_msis plat False
                        (vdev1\<lparr>msi := (msi vdev1)\<lparr>info_index := VFIO_PCI_MSI_IRQ_INDEX\<rparr>\<rparr>)
                 else (0, vdev1)) of
        (ret, vdev2) \<Rightarrow>
      if ret \<noteq> 0 then (ret, vdev2)
      else if irq_modes vdev2 AND VFIO_PCI_IRQ_MODE_INTX \<noteq> 0
      then case vfio_pci_init_intx plat (pci__assign_irq plat vdev2) of
        (ret, vdev3) \<Rightarrow>
          if ret \<noteq> 0 then (ret, vdev3) else vfio_pci_enable_intx env vdev3
      else (ret, vdev2))"

section \<open>Configuration space writes (vfio/pci.c)\<close>

definition PCI_ROM_ADDRESS :: u16 where "PCI_ROM_ADDRESS = 0x30"

text \<open>
  \<open>vfio_pci_cfg_write\<close>: \<open>offset\<close> is the offset of the write, \<open>dat\<close> its
  \<open>sz\<close> bytes. \<open>pwrite\<close> and \<open>pread\<close> on the device fd are calls to the host
  that return the number of bytes transferred; the bytes read back land in a local
  variable.
\<close>

definition vfio_pci_cfg_write ::
  "host_env \<Rightarrow> u16 \<Rightarrow> u8 list \<Rightarrow> vfio_device \<Rightarrow> error + vfio_device" where
  "vfio_pci_cfg_write env offset dat vdev =
     (let sz = int (length dat) in
      if \<not> sz \<le> 4 then Inl ASSERT_FAILED
      else if offset = PCI_ROM_ADDRESS then Inr vdev
      else case host env (PWRITE_CONFIG offset dat) vdev of (n, vdev1) \<Rightarrow>
        let vdev2 = (if n \<noteq> sz
                     then pr ''Failed to write to Configuration Space'' vdev1 else vdev1);
            vdev3 = (if irq_modes vdev2 AND VFIO_PCI_IRQ_MODE_MSIX \<noteq> 0
                     then vfio_pci_msix_cap_write env offset dat vdev2 else vdev2)
        in then_do (if irq_modes vdev3 AND VFIO_PCI_IRQ_MODE_MSI \<noteq> 0
                    then vfio_pci_msi_cap_write env offset dat vdev3 else Inr vdev3)
             (\<lambda>vdev4. case host env (PREAD_CONFIG offset (length dat)) vdev4 of
                (n, vdev5) \<Rightarrow>
                  Inr (if n \<noteq> sz
                       then pr ''Failed to read from Configuration Space'' vdev5
                       else vdev5)))"

section \<open>The states a device reaches when its handlers run one at a time\<close>

text \<open>
  A device starts from \<open>vfio_pci_configure_dev_irqs\<close>, run once on a structure in
  which nothing has been armed: the host states are zero as allocated, no call has
  been made, nothing is bound in KVM, and a capability the device does not have has no
  vectors. From then on the guest drives it: by writes to configuration space, by
  accesses to the MSI-X table (registered for a device with MSI-X only), and by moving
  the BAR that holds the table, which changes where the table is seen.

  \<open>serially_reachable\<close> holds of the states between handlers when each handler runs
  to its end before the next one starts. The source does not enforce that: the MSI
  handlers take \<open>msi.mutex\<close>, the MSI-X handlers \<open>msix.mutex\<close>, and the INTx state is
  under neither, so a handler of one capability can run while a handler of the other
  is inside \<open>vfio_pci_enable_msis\<close> or \<open>vfio_pci_disable_msis\<close>. Those runs are not
  in this set; one of them is followed by hand further down.
\<close>

definition unarmed :: "vfio_device \<Rightarrow> bool" where
  "unarmed vdev \<longleftrightarrow>
     host_calls vdev = [] \<and> irqfds vdev = {} \<and>
     cap_host_state (msi vdev) = 0 \<and> cap_host_state (msix vdev) = 0 \<and>
     (irq_modes vdev AND VFIO_PCI_IRQ_MODE_MSI \<noteq> 0 \<or> entries (msi vdev) = []) \<and>
     (irq_modes vdev AND VFIO_PCI_IRQ_MODE_MSIX \<noteq> 0 \<or> entries (msix vdev) = [])"

inductive serially_reachable :: "host_env \<Rightarrow> platform \<Rightarrow> vfio_device \<Rightarrow> bool"
  for env :: host_env and plat :: platform where
  configured:
    "unarmed vdev0 \<Longrightarrow> vfio_pci_configure_dev_irqs env plat vdev0 = (0, vdev) \<Longrightarrow>
     serially_reachable env plat vdev"
| cfg_write:
    "serially_reachable env plat vdev \<Longrightarrow> vfio_pci_cfg_write env offset dat vdev = Inr vdev' \<Longrightarrow>
     serially_reachable env plat vdev'"
| table_access:
    "serially_reachable env plat vdev \<Longrightarrow> irq_modes vdev AND VFIO_PCI_IRQ_MODE_MSIX \<noteq> 0 \<Longrightarrow>
     vfio_pci_msix_table_access env addr dat is_write vdev = Inr (dat', vdev') \<Longrightarrow>
     serially_reachable env plat vdev'"
| bar_moved:
    "serially_reachable env plat vdev \<Longrightarrow>
     serially_reachable env plat
       (vdev\<lparr>msix_table := (msix_table vdev)\<lparr>table_guest_phys_addr := a\<rparr>\<rparr>)"

text \<open>
  INTx is armed on the host when the device has the mode and \<open>intx_fd\<close> holds a
  descriptor; a capability is armed when its host state has ENABLED.
\<close>

definition intx_enabled :: "vfio_device \<Rightarrow> bool" where
  "intx_enabled vdev \<longleftrightarrow>
     irq_modes vdev AND VFIO_PCI_IRQ_MODE_INTX \<noteq> 0 \<and> intx_fd vdev \<noteq> -1"


text \<open>
  What the history says of the device fd: an interrupt index is armed after a
  successful \<open>SET_IRQS\<close> on it, unless that was the request with no data and count 0
  that tears it down.
\<close>

definition armed_step :: "irq_index \<Rightarrow> bool \<Rightarrow> host_call \<times> int \<Rightarrow> bool" where
  "armed_step idx a cr =
     (case fst cr of
        VFIO_DEVICE_SET_IRQS req \<Rightarrow>
          if set_index req = idx \<and> snd cr \<ge> 0
          then \<not> (set_data req = VFIO_IRQ_SET_DATA_NONE \<and> set_count req = 0)
          else a
      | _ \<Rightarrow> a)"

definition armed :: "host_history \<Rightarrow> irq_index \<Rightarrow> bool" where
  "armed h idx = foldl (armed_step idx) False h"


text \<open>The calls a step added to the history, without their results.\<close>

definition calls_since :: "vfio_device \<Rightarrow> vfio_device \<Rightarrow> host_call list" where
  "calls_since vdev vdev' = map fst (drop (length (host_calls vdev)) (host_calls vdev'))"


section \<open>What a table access leaves behind\<close>

text \<open>
  The bytes a table access hands back, when it returns. An access is malformed when
  its length is not 4 or 8, or its address is not aligned to its length (the source
  tests \<open>addr & (len - 1)\<close>), or its offset is at or beyond \<open>table.size\<close>.
\<close>

definition read_value :: "error + (u8 list \<times> vfio_device) \<Rightarrow> u8 list option" where
  "read_value r = (case r of Inl e \<Rightarrow> None | Inr (d, v) \<Rightarrow> Some d)"

definition access_malformed :: "u64 \<Rightarrow> u8 list \<Rightarrow> vfio_device \<Rightarrow> bool" where
  "access_malformed addr dat vdev \<longleftrightarrow>
     (length dat \<noteq> 4 \<and> length dat \<noteq> 8) \<or>
     addr AND ucast ((of_nat (length dat) :: u32) - 1) \<noteq> 0 \<or>
     unat (addr - ucast (table_guest_phys_addr (msix_table vdev)))
       \<ge> table_size (msix_table vdev)"

section \<open>An example device\<close>

text \<open>
  A host on which every call succeeds and every new descriptor and route is fresh; a
  platform; and a device with INTx and an MSI-X capability of three vectors at 0x40
  (table at offset 0 of BAR 0, PBA at offset 0x1000 of the same BAR), before and after
  its set-up.
\<close>

definition demo_env :: host_env where
  "demo_env h c =
     (case c of
        EVENTFD \<Rightarrow> 10 + int (length h)
      | IRQ_ADD_MSIX_ROUTE m \<Rightarrow> 100 + int (length h)
      | PWRITE_CONFIG off dat \<Rightarrow> int (length dat)
      | PREAD_CONFIG off n \<Rightarrow> int n
      | _ \<Rightarrow> 0)"

definition demo_platform :: platform where
  "demo_platform =
     \<lparr>region_info = (\<lambda>i. (0, 0x2000)),
      irq_info = (\<lambda>i. (0, (if i = VFIO_PCI_MSIX_IRQ_INDEX then 3 else 1), True, True)),
      pci_get_mmio_block = (\<lambda>sz. 0x10000),
      assigned_irq_line = 37, MAX_PAGE_SIZE = 0x1000, KVM_IRQ_OFFSET = 32\<rparr>"

definition demo_cap :: vfio_pci_msi_common where
  "demo_cap =
     \<lparr>pos = 0, cap_guest_state = 0, cap_host_state = 0,
      info_index = VFIO_PCI_INTX_IRQ_INDEX, irq_set_eventfds = [], entries = []\<rparr>"

definition demo_blank :: vfio_device where
  "demo_blank =
     \<lparr>hdr = replicate 0x40 0 @ [0x11, 0, 0x02, 0, 0, 0, 0, 0, 0, 0x10, 0, 0] @
             replicate 0xB4 0,
      irq_modes = 5, intx_fd = 0, unmask_fd = 0, intx_gsi = 0,
      msi = demo_cap, msix = demo_cap\<lparr>pos := 0x40\<rparr>,
      msix_table = \<lparr>table_size = 0, table_bar = 0, table_guest_phys_addr = 0\<rparr>,
      msix_pba = \<lparr>pba_size = 0, pba_bar = 0, pba_guest_phys_addr = 0\<rparr>,
      irqfds = {}, host_calls = [], dev_log = []\<rparr>"

definition demo_created :: vfio_device where
  "demo_created =
     (case vfio_pci_create_msix_table demo_platform demo_blank of
        Inr (r, v) \<Rightarrow> v | Inl e \<Rightarrow> demo_blank)"

definition demo_device :: vfio_device where
  "demo_device = snd (vfio_pci_configure_dev_irqs demo_env demo_platform demo_created)"

section \<open>Measures of the history\<close>

text \<open>
  Two counts over a history: the \<open>SET_IRQS\<close> requests made on an interrupt index,
  and those of them that failed. A step made such a request when the first count grew
  over it, and saw one fail when the second did. \<open>answered env h c r\<close> says that
  \<open>r\<close> is what the host returned for \<open>c\<close> after \<open>h\<close>.
\<close>

definition n_set_irqs :: "irq_index \<Rightarrow> host_history \<Rightarrow> nat" where
  "n_set_irqs idx h =
     length (filter (\<lambda>cr. case fst cr of
                 VFIO_DEVICE_SET_IRQS req \<Rightarrow> set_index req = idx
               | _ \<Rightarrow> False) h)"

definition failed_set_irqs :: "irq_index \<Rightarrow> host_history \<Rightarrow> nat" where
  "failed_set_irqs idx h =
     length (filter (\<lambda>cr. case fst cr of
                 VFIO_DEVICE_SET_IRQS req \<Rightarrow> set_index req = idx \<and> snd cr < 0
               | _ \<Rightarrow> False) h)"

definition answered :: "host_env \<Rightarrow> host_history \<Rightarrow> host_call \<Rightarrow> int \<Rightarrow> bool" where
  "answered env h c r \<longleftrightarrow> env h c = r"

text \<open>
  The two conditions under which \<open>vfio_pci_enable_msis\<close> talks to the device: it
  registers the full range, or it goes through the vectors one by one.
\<close>

definition wants_multi :: "bool \<Rightarrow> vfio_device \<Rightarrow> bool" where
  "wants_multi is_msix vdev \<longleftrightarrow>
     msi_is_enabled (cap_guest_state (msis is_msix vdev)) \<and>
     (\<not> msi_is_enabled (cap_host_state (msis is_msix vdev)) \<or>
      (\<not> msi_is_masked (cap_guest_state (msis is_msix vdev)) \<and>
       msi_is_empty (cap_host_state (msis is_msix vdev))))"

definition wants_single :: "bool \<Rightarrow> vfio_device \<Rightarrow> bool" where
  "wants_single is_msix vdev \<longleftrightarrow>
     msi_is_enabled (cap_guest_state (msis is_msix vdev)) \<and>
     \<not> wants_multi is_msix vdev \<and> \<not> msi_is_masked (cap_guest_state (msis is_msix vdev))"

text \<open>The example host, except that every \<open>SET_IRQS\<close> on the MSI-X index fails.\<close>

definition demo_env_failing :: host_env where
  "demo_env_failing h c =
     (case c of
        VFIO_DEVICE_SET_IRQS req \<Rightarrow>
          if set_index req = VFIO_PCI_MSIX_IRQ_INDEX then -1 else 0
      | _ \<Rightarrow> demo_env h c)"

text \<open>
  The example device once the guest has set the enable bit of MSI-X, and once MSI-X
  has been armed for it on the example host.
\<close>

definition demo_guest_enabled :: vfio_device where
  "demo_guest_enabled =
     demo_device\<lparr>msix := (msix demo_device)\<lparr>cap_guest_state := 1\<rparr>\<rparr>"

definition demo_armed :: vfio_device where
  "demo_armed = vfio_pci_msix_cap_write demo_env 0x43 [0xC0] demo_device"

text \<open>
  A device with INTx and a 32-bit MSI capability at 0x40 whose control word has a
  Multiple Message Capable field of 0, one vector, after its set-up on the example
  host.
\<close>

definition demo_msi_blank :: vfio_device where
  "demo_msi_blank =
     \<lparr>hdr = replicate 0x40 0 @ [0x05, 0, 0, 0, 0, 0, 0xE0, 0xFE, 0x41, 0] @
             replicate 0xB6 0,
      irq_modes = 3, intx_fd = 0, unmask_fd = 0, intx_gsi = 0,
      msi = demo_cap\<lparr>pos := 0x40\<rparr>, msix = demo_cap,
      msix_table = \<lparr>table_size = 0, table_bar = 0, table_guest_phys_addr = 0\<rparr>,
      msix_pba = \<lparr>pba_size = 0, pba_bar = 0, pba_guest_phys_addr = 0\<rparr>,
      irqfds = {}, host_calls = [], dev_log = []\<rparr>"

definition demo_msi_device :: vfio_device where
  "demo_msi_device =
     snd (vfio_pci_configure_dev_irqs demo_env demo_platform
            (snd (vfio_pci_create_msi_cap demo_msi_blank)))"

section \<open>Writes to the enable bit of a capability\<close>

text \<open>
  The byte of a capability that holds its enable bit, and the bit in that byte: the
  high byte of the MSI-X control word at \<open>PCI_MSIX_FLAGS + 1\<close> (the source's
  \<open>enable_pos\<close>), and the byte of the MSI control word at \<open>PCI_MSI_FLAGS\<close> that
  \<open>vfio_pci_msi_cap_write\<close> reads. \<open>cap_write\<close> is the handler of the one or the
  other capability.
\<close>

definition enable_byte :: "bool \<Rightarrow> nat" where
  "enable_byte is_msix = (if is_msix then nat (PCI_MSIX_FLAGS + 1) else nat PCI_MSI_FLAGS)"

definition enable_bit :: "bool \<Rightarrow> nat" where
  "enable_bit is_msix = (if is_msix then 7 else 0)"

definition cap_write ::
  "host_env \<Rightarrow> bool \<Rightarrow> u16 \<Rightarrow> u8 list \<Rightarrow> vfio_device \<Rightarrow> error + vfio_device" where
  "cap_write env is_msix off dat vdev =
     (if is_msix then Inr (vfio_pci_msix_cap_write env off dat vdev)
      else vfio_pci_msi_cap_write env off dat vdev)"

text \<open>
  The calls by which \<open>vfio_pci_enable_intx\<close> arms INTx when all of them succeed, read
  off the device it leaves.
\<close>

definition intx_arming :: "vfio_device \<Rightarrow> host_call list" where
  "intx_arming vdev =
     [EVENTFD, EVENTFD,
      IRQ_ADD_IRQFD (sint (intx_gsi vdev)) (intx_fd vdev) (unmask_fd vdev),
      VFIO_DEVICE_SET_IRQS (intx_request VFIO_IRQ_SET_ACTION_TRIGGER (intx_fd vdev)),
      VFIO_DEVICE_SET_IRQS (intx_request VFIO_IRQ_SET_ACTION_UNMASK (unmask_fd vdev))]"

text \<open>The armed example device after the guest has cleared the enable bit of MSI-X.\<close>

definition demo_fallback :: vfio_device where
  "demo_fallback =
     (case cap_write demo_env True 0x43 [0] demo_armed of Inr v \<Rightarrow> v | Inl e \<Rightarrow> demo_armed)"

section \<open>The example device through the guest's start-up sequence\<close>





section \<open>The exclusion of the interrupt modes\<close>










text \<open>
  The invariant behind the exclusion of the interrupt modes. For a capability the
  device has, \<open>info.index\<close> is its own index and \<open>host_state\<close> has ENABLED exactly
  when the history says the index is armed; a capability the device does not have is
  not enabled; INTx is down while a capability is enabled; and the two capabilities
  are not enabled together. \<open>same_modes\<close> relates two devices that agree on all of
  this.
\<close>

definition mode_bit :: "bool \<Rightarrow> u64" where
  "mode_bit is_msix = (if is_msix then VFIO_PCI_IRQ_MODE_MSIX else VFIO_PCI_IRQ_MODE_MSI)"

definition has_mode :: "bool \<Rightarrow> vfio_device \<Rightarrow> bool" where
  "has_mode is_msix vdev \<longleftrightarrow> irq_modes vdev AND mode_bit is_msix \<noteq> 0"

definition index_of :: "bool \<Rightarrow> irq_index" where
  "index_of is_msix = (if is_msix then VFIO_PCI_MSIX_IRQ_INDEX else VFIO_PCI_MSI_IRQ_INDEX)"

definition host_enabled :: "bool \<Rightarrow> vfio_device \<Rightarrow> bool" where
  "host_enabled is_msix vdev \<longleftrightarrow> msi_is_enabled (cap_host_state (msis is_msix vdev))"


definition same_modes :: "vfio_device \<Rightarrow> vfio_device \<Rightarrow> bool" where
  "same_modes vdev vdev' \<longleftrightarrow>
     irq_modes vdev' = irq_modes vdev \<and> intx_fd vdev' = intx_fd vdev \<and>
     (\<forall>b. host_enabled b vdev' = host_enabled b vdev \<and>
          info_index (msis b vdev') = info_index (msis b vdev) \<and>
          armed (host_calls vdev') (index_of b) = armed (host_calls vdev) (index_of b))"

text \<open>The example host, except that every \<open>SET_IRQS\<close> on the INTx index fails.\<close>

definition demo_env_intx_failing :: host_env where
  "demo_env_intx_failing h c =
     (case c of
        VFIO_DEVICE_SET_IRQS req \<Rightarrow>
          if set_index req = VFIO_PCI_INTX_IRQ_INDEX then -1 else 0
      | _ \<Rightarrow> demo_env h c)"



section \<open>A handler stopped inside vfio_pci_disable_msis\<close>

text \<open>
  \<open>vfio_pci_disable_msis\<close> in two parts: the \<open>SET_IRQS\<close> ioctl that tears the
  capability down, and what follows its return (the test of the result, the update of
  \<open>host_state\<close>, the re-arming of INTx). Between the two the host has disarmed the
  capability and \<open>host_state\<close> still has ENABLED.
\<close>

definition disable_msis_ioctl :: "host_env \<Rightarrow> bool \<Rightarrow> vfio_device \<Rightarrow> int \<times> vfio_device" where
  "disable_msis_ioctl env is_msix vdev =
     host env (VFIO_DEVICE_SET_IRQS (disarm_request (info_index (msis is_msix vdev)))) vdev"

definition disable_msis_rest ::
  "host_env \<Rightarrow> bool \<Rightarrow> int \<times> vfio_device \<Rightarrow> int \<times> vfio_device" where
  "disable_msis_rest env is_msix st =
     (case st of (ret, vdev1) \<Rightarrow>
        if ret < 0 then (ret, pr ''VFIO_DEVICE_SET_IRQS(NONE)'' vdev1)
        else
          let vdev2 = msis_update is_msix (\<lambda>m.
                m\<lparr>cap_host_state :=
                    msi_set_empty (msi_set_enabled (cap_host_state m) False) True\<rparr>) vdev1
          in if irq_modes vdev2 AND VFIO_PCI_IRQ_MODE_INTX \<noteq> 0
             then case vfio_pci_enable_intx env vdev2 of
               (ret2, vdev3) \<Rightarrow> ((if ret2 \<ge> 0 then 0 else ret2), vdev3)
             else ((if ret \<ge> 0 then 0 else ret), vdev2))"

text \<open>
  \<open>vfio_pci_cfg_write\<close> for a write that clears the enable bit of MSI-X, in the same
  two parts: \<open>msix_disable_begin\<close> runs from the \<open>pwrite\<close> to the return of the ioctl
  in \<open>vfio_pci_disable_msis\<close>, under \<open>msix.mutex\<close>; \<open>msix_disable_finish\<close> is the rest
  of the handler.
\<close>

definition msix_disable_begin ::
  "host_env \<Rightarrow> u16 \<Rightarrow> u8 list \<Rightarrow> vfio_device \<Rightarrow> int \<times> vfio_device" where
  "msix_disable_begin env offset dat vdev =
     (case host env (PWRITE_CONFIG offset dat) vdev of (n, vdev1) \<Rightarrow>
        let vdev2 = (if n \<noteq> int (length dat)
                     then pr ''Failed to write to Configuration Space'' vdev1 else vdev1);
            flags = (push_bit 8 (ucast (dat ! nat (PCI_MSIX_FLAGS + 1 -
                       uint (offset - of_nat (pos (msix vdev2)))))) :: u16);
            vdev3 = vdev2\<lparr>msix := (msix vdev2)\<lparr>cap_guest_state :=
                      msi_set_enabled
                        (msi_set_masked (cap_guest_state (msix vdev2))
                           (flags AND PCI_MSIX_FLAGS_MASKALL \<noteq> 0))
                        False\<rparr>\<rparr>
        in disable_msis_ioctl env True vdev3)"

definition msix_disable_finish ::
  "host_env \<Rightarrow> u16 \<Rightarrow> u8 list \<Rightarrow> int \<times> vfio_device \<Rightarrow> error + vfio_device" where
  "msix_disable_finish env offset dat st =
     (case disable_msis_rest env True st of (ret, vdev1) \<Rightarrow>
        let vdev2 = (if ret \<noteq> 0 then pr ''cannot disable MSIX'' vdev1 else vdev1)
        in then_do (if irq_modes vdev2 AND VFIO_PCI_IRQ_MODE_MSI \<noteq> 0
                    then vfio_pci_msi_cap_write env offset dat vdev2 else Inr vdev2)
             (\<lambda>vdev3. case host env (PREAD_CONFIG offset (length dat)) vdev3 of
                (n, vdev4) \<Rightarrow>
                  Inr (if n \<noteq> int (length dat)
                       then pr ''Failed to read from Configuration Space'' vdev4
                       else vdev4)))"




section \<open>Basic facts\<close>

lemmas pci_regs_defs =
  PCI_STATUS_CAP_LIST_def PCI_CAP_ID_MSI_def PCI_CAP_ID_EXP_def PCI_CAP_ID_MSIX_def
  PCI_STD_HEADER_SIZEOF_def PCI_DEV_CFG_SIZE_LEGACY_def PCI_CAP_MSIX_SIZEOF_def
  PCI_CAP_EXP_RC_ENDPOINT_SIZEOF_V1_def PCI_MSI_FLAGS_def PCI_MSI_FLAGS_ENABLE_def
  PCI_MSI_FLAGS_QMASK_def PCI_MSI_FLAGS_QSIZE_def PCI_MSI_FLAGS_64BIT_def
  PCI_MSI_FLAGS_MASKBIT_def PCI_MSI_MASK_32_def PCI_MSI_MASK_64_def PCI_MSIX_FLAGS_def
  PCI_MSIX_FLAGS_QSIZE_def PCI_MSIX_FLAGS_MASKALL_def PCI_MSIX_FLAGS_ENABLE_def
  PCI_MSIX_TABLE_BIR_def PCI_MSIX_ENTRY_SIZE_def PCI_MSIX_ENTRY_VECTOR_CTRL_def
  PCI_MSIX_ENTRY_CTRL_MASKBIT_def


lemma msi_is_enabled_bit: "msi_is_enabled s = bit s 0"
  unfolding msi_is_enabled_def VFIO_PCI_MSI_STATE_ENABLED_def
  by (simp only: and_exp_eq_0_iff_not_bit not_not)

lemma msi_is_masked_bit: "msi_is_masked s = bit s 1"
  unfolding msi_is_masked_def VFIO_PCI_MSI_STATE_MASKED_def
  by (simp only: and_exp_eq_0_iff_not_bit not_not)

lemma msi_is_empty_bit: "msi_is_empty s = bit s 2"
  unfolding msi_is_empty_def VFIO_PCI_MSI_STATE_EMPTY_def
  by (simp only: and_exp_eq_0_iff_not_bit not_not)

lemma bit_msi_update_state:
  "bit (msi_update_state (s::'a::len word) v (2 ^ k)) j =
     (if j = k then v \<and> k < LENGTH('a) else bit s j)"
  by (auto simp: msi_update_state_def bit_simps dest: bit_imp_le_length)

lemma bit_msi_set_enabled:
  "bit (msi_set_enabled (s::'a::len word) v) j = (if j = 0 then v else bit s j)"
  unfolding msi_set_enabled_def VFIO_PCI_MSI_STATE_ENABLED_def
  by (simp only: bit_msi_update_state) simp

lemma bit_msi_set_masked:
  "1 < LENGTH('a) \<Longrightarrow>
   bit (msi_set_masked (s::'a::len word) v) j = (if j = 1 then v else bit s j)"
  unfolding msi_set_masked_def VFIO_PCI_MSI_STATE_MASKED_def
  by (simp only: bit_msi_update_state) simp

lemma bit_msi_set_empty:
  "2 < LENGTH('a) \<Longrightarrow>
   bit (msi_set_empty (s::'a::len word) v) j = (if j = 2 then v else bit s j)"
  unfolding msi_set_empty_def VFIO_PCI_MSI_STATE_EMPTY_def
  by (simp only: bit_msi_update_state) simp

lemmas msi_state_bits =
  msi_is_enabled_bit msi_is_masked_bit msi_is_empty_bit
  bit_msi_set_enabled bit_msi_set_masked bit_msi_set_empty

section \<open>Properties of the vCPU reset\<close>

lemma set_reg_or_die_ok:
  "\<forall>n r. ok n r \<Longrightarrow>
   set_reg_or_die ok r v vcpu = Inr (vcpu\<lparr>set_one_reg_log := set_one_reg_log vcpu @ [(r, v)]\<rparr>)"
  by (simp add: set_reg_or_die_def kvm_set_one_reg_def)

text \<open>
  C9. AArch64 reset protocol. When the host accepts every register write, the reset of
  any vCPU issues, in this order, PSTATE := D|A|I|F|EL1h, x1 := 0, x2 := 0, x3 := 0;
  CPU 0 then also gets x0 := address of the device tree blob and PC := kernel entry,
  and a secondary CPU (\<open>cpu_id \<noteq> 0\<close>) gets no further write: its x0 and PC are left
  alone.
\<close>

theorem reset_vcpu_aarch64_protocol:
  assumes "\<forall>n r. ok n r"
  shows "reset_vcpu_aarch64 ok vcpu =
     Inr (vcpu\<lparr>set_one_reg_log := set_one_reg_log vcpu @
        [(regs_pstate, PSR_D_BIT OR PSR_A_BIT OR PSR_I_BIT OR PSR_F_BIT OR PSR_MODE_EL1h),
         (regs_regs 1, 0), (regs_regs 2, 0), (regs_regs 3, 0)] @
        (if cpu_id vcpu = 0
         then [(regs_regs 0, dtb_guest_start vcpu), (regs_pc, kern_guest_start vcpu)]
         else [])\<rparr>)"
  by (simp add: reset_vcpu_aarch64_def then_do_def set_reg_or_die_ok [OF assms])

theorem reset_vcpu_aarch64_protocol_witness:
  "reset_vcpu_aarch64 (\<lambda>n r. True)
     \<lparr>cpu_id = 1, dtb_guest_start = 0x8FE00000, kern_guest_start = 0x80080000,
      set_one_reg_log = []\<rparr> =
   Inr \<lparr>cpu_id = 1, dtb_guest_start = 0x8FE00000, kern_guest_start = 0x80080000,
      set_one_reg_log = [(regs_pstate, 0x3C5), (regs_regs 1, 0), (regs_regs 2, 0),
        (regs_regs 3, 0)]\<rparr>
   \<and> reset_vcpu_aarch64 (\<lambda>n r. True)
     \<lparr>cpu_id = 0, dtb_guest_start = 0x8FE00000, kern_guest_start = 0x80080000,
      set_one_reg_log = []\<rparr> =
   Inr \<lparr>cpu_id = 0, dtb_guest_start = 0x8FE00000, kern_guest_start = 0x80080000,
      set_one_reg_log = [(regs_pstate, 0x3C5), (regs_regs 1, 0), (regs_regs 2, 0),
        (regs_regs 3, 0), (regs_regs 0, 0x8FE00000), (regs_pc, 0x80080000)]\<rparr>"
  using reset_vcpu_aarch64_protocol [of "\<lambda>n r. True"
      "\<lparr>cpu_id = 1, dtb_guest_start = 0x8FE00000, kern_guest_start = 0x80080000,
        set_one_reg_log = []\<rparr>"]
    reset_vcpu_aarch64_protocol [of "\<lambda>n r. True"
      "\<lparr>cpu_id = 0, dtb_guest_start = 0x8FE00000, kern_guest_start = 0x80080000,
        set_one_reg_log = []\<rparr>"]
  by (simp add: PSR_D_BIT_def PSR_A_BIT_def PSR_I_BIT_def PSR_F_BIT_def PSR_MODE_EL1h_def)

section \<open>Bounds of the MSI-X table\<close>

lemma low_bits_clear: "push_bit 4 (w :: u64) AND 7 = 0"
proof -
  have "(7 :: u64) = mask 3" by (simp add: mask_eq_exp_minus_1)
  then show ?thesis by (simp add: bit_eq_iff bit_simps)
qed

lemma ALIGN_16: "ALIGN (w * 16) 8 = (w * 16 :: u64)"
proof -
  have e: "w * 16 = push_bit 4 w" by (simp add: push_bit_eq_mult)
  have z: "push_bit 4 w AND 7 = 0" by (rule low_bits_clear)
  have "push_bit 4 w + 7 = push_bit 4 w OR 7"
    using z by (rule disjunctive_add_eq_or)
  then have "ALIGN (push_bit 4 w) 8 = (push_bit 4 w OR 7) AND NOT 7"
    by (simp add: ALIGN_def)
  also have "\<dots> = push_bit 4 w AND NOT 7"
    by (simp add: bit_eq_iff bit_simps) blast
  also have "\<dots> = push_bit 4 w"
    using z by (simp add: bit_eq_iff bit_simps) blast
  finally show ?thesis by (simp add: e)
qed

lemma unat_table_size:
  "n \<le> 2048 \<Longrightarrow> unat (ALIGN (of_nat n * of_nat PCI_MSIX_ENTRY_SIZE) 8) = 16 * n"
  by (simp add: PCI_MSIX_ENTRY_SIZE_def ALIGN_16 unat_word_ariths unat_of_nat)

lemma msix_nr_entries_le: "msix_nr_entries c \<le> 2048"
proof -
  have "unat (c AND PCI_MSIX_FLAGS_QSIZE) \<le> unat PCI_MSIX_FLAGS_QSIZE"
    by (rule word_and_le1 [THEN word_le_nat_alt [THEN iffD1]])
  then show ?thesis by (simp add: msix_nr_entries_def PCI_MSIX_FLAGS_QSIZE_def)
qed

lemma create_msix_table_size:
  assumes "vfio_pci_create_msix_table plat vdev0 = Inr (0, vdev)"
  shows "table_size (msix_table vdev) = 16 * nr_entries (msix vdev)"
  using assms
    unat_table_size [OF msix_nr_entries_le [of "rd 2 (pos (msix vdev0) + 2) (hdr vdev0)"]]
  by (auto simp: vfio_pci_create_msix_table_def Let_def nr_entries_def pr_def ENOMEM_def
        EINVAL_def split: prod.splits if_splits)

lemma table_index_bound:
  "table_size (msix_table vdev) = 16 * nr_entries (msix vdev) \<Longrightarrow>
   unat (offset :: u64) < table_size (msix_table vdev) \<Longrightarrow>
   unat offset div PCI_MSIX_ENTRY_SIZE < nr_entries (msix vdev)"
  by (simp add: PCI_MSIX_ENTRY_SIZE_def)

text \<open>
  C10. Bound on MSI-X table indexing. For a table set up by
  \<open>vfio_pci_create_msix_table\<close>, and as long as the table size and the number of
  entries are the ones it set, \<open>table.size\<close> is exactly 16 times \<open>nr_entries\<close>
  (the rounding to 8 adds nothing); so for any address the guest chooses, an access
  whose offset is below \<open>table.size\<close> has its vector index \<open>offset / 16\<close> below
  \<open>nr_entries\<close>, and the handler never indexes the entries array out of bounds.
\<close>

theorem msix_table_index_in_bounds:
  assumes created: "vfio_pci_create_msix_table plat vdev0 = Inr (0, vdev1)"
    and kept: "table_size (msix_table vdev) = table_size (msix_table vdev1)"
      "nr_entries (msix vdev) = nr_entries (msix vdev1)"
  shows "table_size (msix_table vdev) = 16 * nr_entries (msix vdev) \<and>
    (unat (addr - ucast (table_guest_phys_addr (msix_table vdev)))
       < table_size (msix_table vdev) \<longrightarrow>
     unat (addr - ucast (table_guest_phys_addr (msix_table vdev))) div PCI_MSIX_ENTRY_SIZE
       < nr_entries (msix vdev)) \<and>
    (\<forall>i. vfio_pci_msix_table_access env addr dat is_write vdev \<noteq> Inl (OUT_OF_BOUNDS i))"
proof -
  have sz: "table_size (msix_table vdev) = 16 * nr_entries (msix vdev)"
    using create_msix_table_size [OF created] kept by simp
  have idx: "unat (offset :: u64) < table_size (msix_table vdev) \<Longrightarrow>
      unat offset div PCI_MSIX_ENTRY_SIZE < nr_entries (msix vdev)" for offset
    using sz by (rule table_index_bound)
  have "vfio_pci_msix_table_access env addr dat is_write vdev \<noteq> Inl (OUT_OF_BOUNDS i)" for i
    using idx [of "addr - ucast (table_guest_phys_addr (msix_table vdev))"]
    by (auto simp: vfio_pci_msix_table_access_def Let_def split: prod.splits if_splits)
  with sz idx show ?thesis by blast
qed

theorem msix_table_index_in_bounds_witness:
  "vfio_pci_create_msix_table demo_platform demo_blank = Inr (0, demo_created) \<and>
   table_size (msix_table demo_device) = 16 * nr_entries (msix demo_device) \<and>
   unat ((0x1002C :: u64) - ucast (table_guest_phys_addr (msix_table demo_device)))
     < table_size (msix_table demo_device) \<and>
   unat ((0x1002C :: u64) - ucast (table_guest_phys_addr (msix_table demo_device)))
     div PCI_MSIX_ENTRY_SIZE < nr_entries (msix demo_device)"
proof -
  have c: "vfio_pci_create_msix_table demo_platform demo_blank = Inr (0, demo_created)"
    by code_simp
  have k1: "table_size (msix_table demo_device) = table_size (msix_table demo_created)"
    by code_simp
  have k2: "nr_entries (msix demo_device) = nr_entries (msix demo_created)"
    by code_simp
  have lt: "unat ((0x1002C :: u64) - ucast (table_guest_phys_addr (msix_table demo_device)))
     < table_size (msix_table demo_device)"
    by code_simp
  show ?thesis
    using c lt msix_table_index_in_bounds [OF c k1 k2, of "0x1002C" demo_env "[]" False]
    by blast
qed

section \<open>Malformed accesses to the MSI-X table\<close>

lemma malformed_result:
  assumes "access_malformed addr dat vdev" and "length dat < 2 ^ 32"
  shows "vfio_pci_msix_table_access env addr dat is_write vdev =
           Inr (dat, pr ''access outside of the MSI-X table'' vdev) \<or>
         vfio_pci_msix_table_access env addr dat is_write vdev =
           Inr (dat, pr ''invalid MSI-X table access'' vdev)"
proof -
  have "(of_nat (length dat) :: u32) = 4 \<longleftrightarrow> length dat = 4"
    "(of_nat (length dat) :: u32) = 8 \<longleftrightarrow> length dat = 8"
    using assms(2)
    by (auto simp: word_of_nat_eq_iff [of _ 4, simplified]
          word_of_nat_eq_iff [of _ 8, simplified] take_bit_nat_eq_self)
  then show ?thesis
    using assms(1)
    by (auto simp: access_malformed_def vfio_pci_msix_table_access_def Let_def)
qed

lemma read_ignores_log:
  "read_value (vfio_pci_msix_table_access env a d False (pr m vdev)) =
   read_value (vfio_pci_msix_table_access env a d False vdev)"
  by (simp add: vfio_pci_msix_table_access_def Let_def pr_def read_value_def nr_entries_def)

text \<open>
  C5. MSI-X table access validation. An access of at most \<open>2^32 - 1\<close> bytes whose
  length is not 4 or 8, or whose address is not aligned to its length, or whose offset
  is at or beyond \<open>table.size\<close>, returns with one message logged and nothing else
  changed: the buffer, every vector entry, the bindings and the history of host calls
  are as before. So any read that follows returns what it would have returned before
  the rejected access.
\<close>

theorem msix_table_access_rejected:
  assumes "access_malformed addr dat vdev" and "length dat < 2 ^ 32"
  shows "\<exists>m. vfio_pci_msix_table_access env addr dat is_write vdev =
            Inr (dat, vdev\<lparr>dev_log := dev_log vdev @ [m]\<rparr>) \<and>
          (\<forall>a d. read_value (vfio_pci_msix_table_access env a d False
                     (vdev\<lparr>dev_log := dev_log vdev @ [m]\<rparr>)) =
                 read_value (vfio_pci_msix_table_access env a d False vdev))"
  using malformed_result [OF assms, of env is_write] read_ignores_log [of env _ _ _ vdev]
  unfolding pr_def by metis

theorem msix_table_access_rejected_witness:
  "access_malformed 0x10000 [0xAA, 0xBB] demo_device \<and>
   access_malformed 0x10030 [0, 0, 0, 0] demo_device \<and>
   access_malformed 0x10002 [0, 0, 0, 0] demo_device \<and>
   (\<exists>m. vfio_pci_msix_table_access demo_env 0x10000 [0xAA, 0xBB] True demo_device =
           Inr ([0xAA, 0xBB], demo_device\<lparr>dev_log := dev_log demo_device @ [m]\<rparr>) \<and>
         read_value (vfio_pci_msix_table_access demo_env 0x1000C [0, 0, 0, 0] False
           (demo_device\<lparr>dev_log := dev_log demo_device @ [m]\<rparr>)) = Some [1, 0, 0, 0])"
proof -
  have m: "access_malformed 0x10000 [0xAA, 0xBB] demo_device"
    "access_malformed 0x10030 [0, 0, 0, 0] demo_device"
    "access_malformed 0x10002 [0, 0, 0, 0] demo_device"
    by code_simp+
  have l: "length [0xAA, 0xBB :: u8] < 2 ^ 32" by simp
  have r: "read_value (vfio_pci_msix_table_access demo_env 0x1000C [0, 0, 0, 0] False
      demo_device) = Some [1, 0, 0, 0]"
    by code_simp
  show ?thesis
    using m r msix_table_access_rejected [OF m(1) l, of demo_env True]
    by (metis (no_types, lifting))
qed

section \<open>The host's answers and the frame of each operation\<close>

lemma host_eq_iff:
  "host env c v = (r, v1) \<longleftrightarrow>
     answered env (host_calls v) c r \<and> v1 = v\<lparr>host_calls := host_calls v @ [(c, r)]\<rparr>"
  by (auto simp: host_def answered_def)

lemma answered_unique: "answered env h c r \<Longrightarrow> answered env h c r' \<Longrightarrow> r' = r"
  by (simp add: answered_def)

lemma snd_host:
  "snd (host env c v) = v\<lparr>host_calls := host_calls v @ [(c, fst (host env c v))]\<rparr>"
  by (simp add: host_def)

lemmas host_defs = host_eq_iff snd_host pr_def irq__add_irqfd_def irq__del_irqfd_def close_fd_def

lemma failed_set_irqs_simps [simp]:
  "failed_set_irqs idx (h @ h') = failed_set_irqs idx h + failed_set_irqs idx h'"
  "failed_set_irqs idx [] = 0"
  "failed_set_irqs idx (cr # h') =
     (case fst cr of
        VFIO_DEVICE_SET_IRQS req \<Rightarrow> if set_index req = idx \<and> snd cr < 0 then 1 else 0
      | _ \<Rightarrow> 0) + failed_set_irqs idx h'"
  by (auto simp: failed_set_irqs_def split: host_call.splits)

lemma n_set_irqs_simps [simp]:
  "n_set_irqs idx (h @ h') = n_set_irqs idx h + n_set_irqs idx h'"
  "n_set_irqs idx [] = 0"
  "n_set_irqs idx (cr # h') =
     (case fst cr of
        VFIO_DEVICE_SET_IRQS req \<Rightarrow> if set_index req = idx then 1 else 0
      | _ \<Rightarrow> 0) + n_set_irqs idx h'"
  by (auto simp: n_set_irqs_def split: host_call.splits)

lemma msis_simps [simp]:
  "msis is_msix (vdev\<lparr>host_calls := h\<rparr>) = msis is_msix vdev"
  "msis is_msix (vdev\<lparr>dev_log := l\<rparr>) = msis is_msix vdev"
  "msis is_msix (vdev\<lparr>irqfds := q\<rparr>) = msis is_msix vdev"
  "msis is_msix (vdev\<lparr>intx_fd := fd\<rparr>) = msis is_msix vdev"
  "msis is_msix (vdev\<lparr>unmask_fd := fd\<rparr>) = msis is_msix vdev"
  "msis is_msix (msis_update is_msix f vdev) = f (msis is_msix vdev)"
  "msis (\<not> is_msix) (msis_update is_msix f vdev) = msis (\<not> is_msix) vdev"
  "host_calls (msis_update is_msix f vdev) = host_calls vdev"
  "irq_modes (msis_update is_msix f vdev) = irq_modes vdev"
  "intx_fd (msis_update is_msix f vdev) = intx_fd vdev"
  "irqfds (msis_update is_msix f vdev) = irqfds vdev"
  by (simp_all add: msis_def msis_update_def)

lemma disable_intx_simps [simp]:
  "msis is_msix (vfio_pci_disable_intx env vdev) = msis is_msix vdev"
  "irq_modes (vfio_pci_disable_intx env vdev) = irq_modes vdev"
  "idx \<noteq> VFIO_PCI_INTX_IRQ_INDEX \<Longrightarrow>
   failed_set_irqs idx (host_calls (vfio_pci_disable_intx env vdev)) = failed_set_irqs idx (host_calls vdev)"
  "idx \<noteq> VFIO_PCI_INTX_IRQ_INDEX \<Longrightarrow>
   n_set_irqs idx (host_calls (vfio_pci_disable_intx env vdev)) = n_set_irqs idx (host_calls vdev)"
  by (simp_all add: vfio_pci_disable_intx_def Let_def host_defs intx_disarm_request_def split: prod.splits)

lemma update_vectors_host_state:
  "\<not> msi_is_empty (cap_host_state (msis is_msix vdev)) \<Longrightarrow>
   cap_host_state (msis is_msix (snd (update_vectors env is_msix ixs ret vdev))) =
   cap_host_state (msis is_msix vdev)"
  by (induction ixs arbitrary: ret vdev) (auto simp: Let_def host_defs split: prod.splits)

lemma update_vectors_failed:
  "failed_set_irqs idx (host_calls vdev)
     < failed_set_irqs idx (host_calls (snd (update_vectors env is_msix ixs ret vdev))) \<Longrightarrow>
   fst (update_vectors env is_msix ixs ret vdev) < 0"
  by (induction ixs arbitrary: ret vdev)
     (auto simp: Let_def host_defs single_request_def split: prod.splits if_splits
        dest: answered_unique)

lemma update_vectors_frame:
  "entries (msis is_msix (snd (update_vectors env is_msix ixs ret vdev))) =
     entries (msis is_msix vdev)"
  "info_index (msis is_msix (snd (update_vectors env is_msix ixs ret vdev))) =
     info_index (msis is_msix vdev)"
  "cap_guest_state (msis is_msix (snd (update_vectors env is_msix ixs ret vdev))) =
     cap_guest_state (msis is_msix vdev)"
  "length (irq_set_eventfds (msis is_msix (snd (update_vectors env is_msix ixs ret vdev)))) =
     length (irq_set_eventfds (msis is_msix vdev))"
  "irq_modes (snd (update_vectors env is_msix ixs ret vdev)) = irq_modes vdev"
  "intx_fd (snd (update_vectors env is_msix ixs ret vdev)) = intx_fd vdev"
  "i \<notin> set ixs \<Longrightarrow>
   irq_set_eventfds (msis is_msix (snd (update_vectors env is_msix ixs ret vdev))) ! i =
     irq_set_eventfds (msis is_msix vdev) ! i"
  by (induction ixs arbitrary: ret vdev; auto simp: Let_def host_defs split: prod.splits)+

lemma update_vectors_mono:
  "n_set_irqs idx (host_calls vdev)
     \<le> n_set_irqs idx (host_calls (snd (update_vectors env is_msix ixs ret vdev)))"
proof (induction ixs arbitrary: ret vdev)
  case Nil
  show ?case by simp
next
  case (Cons i rest)
  have step: "n_set_irqs idx (host_calls vdev) \<le> n_set_irqs idx (host_calls v2) \<Longrightarrow>
     n_set_irqs idx (host_calls vdev)
       \<le> n_set_irqs idx (host_calls (snd (update_vectors env is_msix rest r v2)))" for r v2
    using Cons.IH [of v2 r] by simp
  show ?case
    by (auto simp: Let_def host_defs split: prod.splits intro!: step)
qed

lemma enable_msis_kept:
  assumes "info_index (msis is_msix vdev) \<noteq> VFIO_PCI_INTX_IRQ_INDEX"
    and "failed_set_irqs (info_index (msis is_msix vdev)) (host_calls vdev)
        < failed_set_irqs (info_index (msis is_msix vdev))
            (host_calls (snd (vfio_pci_enable_msis env is_msix vdev)))"
  shows "cap_host_state (msis is_msix (snd (vfio_pci_enable_msis env is_msix vdev))) =
            cap_host_state (msis is_msix vdev) \<and>
          fst (vfio_pci_enable_msis env is_msix vdev) < 0"
  using assms update_vectors_failed [of "info_index (msis is_msix vdev)" "vfio_pci_disable_intx env vdev" env is_msix]
    update_vectors_failed [of "info_index (msis is_msix vdev)" vdev env is_msix]
  by (auto simp: vfio_pci_enable_msis_def Let_def host_defs multi_request_def update_vectors_host_state
      split: prod.splits if_splits dest: answered_unique)

lemma update_vectors_step:
  assumes "entry_fd (entries (msis is_msix vdev) ! i) \<noteq> irq_set_eventfds (msis is_msix vdev) ! i"
  shows "n_set_irqs (info_index (msis is_msix vdev)) (host_calls vdev)
    < n_set_irqs (info_index (msis is_msix vdev))
        (host_calls (snd (update_vectors env is_msix (i # rest) ret vdev)))"
proof -
  have "Suc (n_set_irqs idx (host_calls vdev))
          \<le> n_set_irqs idx (host_calls (snd (update_vectors env is_msix rest r v2)))"
    if "n_set_irqs idx (host_calls v2) = Suc (n_set_irqs idx (host_calls vdev))" for v2 r idx
    using update_vectors_mono [of idx v2 env is_msix rest r] that by simp
  then show ?thesis
    using assms
    by (auto simp: Let_def host_defs single_request_def less_eq_Suc_le split: prod.splits)
qed

lemma update_vectors_retry:
  assumes "distinct ixs" and "fst (update_vectors env is_msix ixs ret vdev) < 0" and "0 \<le> ret"
    and "\<forall>i \<in> set ixs. i < length (irq_set_eventfds (msis is_msix vdev))"
  shows "n_set_irqs (info_index (msis is_msix vdev))
       (host_calls (snd (update_vectors env is_msix ixs ret vdev)))
    < n_set_irqs (info_index (msis is_msix vdev))
        (host_calls (snd (update_vectors env is_msix ixs ret2
          (snd (update_vectors env is_msix ixs ret vdev)))))"
  using assms
proof (induction ixs arbitrary: ret vdev ret2)
  case Nil
  then show ?case by simp
next
  case (Cons i rest)
  let ?fd = "entry_fd (entries (msis is_msix vdev) ! i)"
  from Cons.prems have ni: "i \<notin> set rest" and d: "distinct rest" by simp_all
  obtain r v1 where h: "host env (VFIO_DEVICE_SET_IRQS
      (single_request (info_index (msis is_msix vdev)) i ?fd)) vdev = (r, v1)"
    by (cases "host env (VFIO_DEVICE_SET_IRQS
      (single_request (info_index (msis is_msix vdev)) i ?fd)) vdev")
  have v1: "msis is_msix v1 = msis is_msix vdev"
    using h by (simp add: host_eq_iff)
  consider (skip) "?fd = irq_set_eventfds (msis is_msix vdev) ! i"
    | (fail) "?fd \<noteq> irq_set_eventfds (msis is_msix vdev) ! i" "r < 0"
    | (ok) "?fd \<noteq> irq_set_eventfds (msis is_msix vdev) ! i" "\<not> r < 0"
    by blast
  then show ?case
  proof cases
    case skip
    then have e1: "update_vectors env is_msix (i # rest) ret vdev =
        update_vectors env is_msix rest ret vdev" by simp
    let ?v' = "snd (update_vectors env is_msix rest ret vdev)"
    have "entry_fd (entries (msis is_msix ?v') ! i) = irq_set_eventfds (msis is_msix ?v') ! i"
      using skip ni by (simp add: update_vectors_frame)
    then have e2: "update_vectors env is_msix (i # rest) ret2 ?v' =
        update_vectors env is_msix rest ret2 ?v'" by simp
    show ?thesis
      unfolding e1 e2 using Cons.IH [OF d, of ret vdev ret2] Cons.prems e1 by simp
  next
    case fail
    define v' where "v' = pr ''VFIO_DEVICE_SET_IRQS(single)'' v1"
    have e1: "update_vectors env is_msix (i # rest) ret vdev = (r, v')"
      using fail h by (simp add: Let_def v'_def)
    have m: "msis is_msix v' = msis is_msix vdev"
      using v1 by (simp add: v'_def pr_def)
    show ?thesis
      unfolding e1 using update_vectors_step [of is_msix v' i env rest ret2] fail(1)
      by (simp add: m)
  next
    case ok
    define v2 where "v2 = msis_update is_msix (\<lambda>m.
               m\<lparr>irq_set_eventfds := (irq_set_eventfds m)[i := ?fd],
                 cap_host_state :=
                   (if msi_is_empty (cap_host_state m) \<and> ?fd \<ge> 0
                    then msi_set_empty (cap_host_state m) False
                    else cap_host_state m)\<rparr>) v1"
    have e1: "update_vectors env is_msix (i # rest) ret vdev =
          update_vectors env is_msix rest r v2"
      using ok h by (simp add: Let_def v2_def)
    define v' where "v' = snd (update_vectors env is_msix rest r v2)"
    have m2: "entries (msis is_msix v2) = entries (msis is_msix vdev)"
      "info_index (msis is_msix v2) = info_index (msis is_msix vdev)"
      by (simp_all add: v2_def v1)
    have m3: "irq_set_eventfds (msis is_msix v2) =
        (irq_set_eventfds (msis is_msix vdev))[i := ?fd]"
      by (simp add: v2_def v1)
    have "irq_set_eventfds (msis is_msix v') ! i = irq_set_eventfds (msis is_msix v2) ! i"
      using ni by (simp add: update_vectors_frame v'_def)
    then have "entry_fd (entries (msis is_msix v') ! i) = irq_set_eventfds (msis is_msix v') ! i"
      using Cons.prems(4) by (simp add: update_vectors_frame v'_def m2 m3)
    then have e2: "update_vectors env is_msix (i # rest) ret2 v' =
          update_vectors env is_msix rest ret2 v'" by simp
    show ?thesis
      unfolding e1 v'_def [symmetric] e2 using Cons.IH [OF d, of r v2 ret2] Cons.prems e1 ok
      by (simp add: v'_def m2 m3)
  qed
qed

lemma enable_intx_msis [simp]:
  "msis is_msix (snd (vfio_pci_enable_intx env vdev)) = msis is_msix vdev"
  "irq_modes (snd (vfio_pci_enable_intx env vdev)) = irq_modes vdev"
  by (simp_all add: vfio_pci_enable_intx_def Let_def host_defs intx_request_def err_close_def
        err_delete_line_def err_remove_event_def split: prod.splits)

lemma enable_intx_n [simp]:
  "idx \<noteq> VFIO_PCI_INTX_IRQ_INDEX \<Longrightarrow>
   n_set_irqs idx (host_calls (snd (vfio_pci_enable_intx env vdev))) =
     n_set_irqs idx (host_calls vdev)"
  by (simp add: vfio_pci_enable_intx_def Let_def host_defs intx_request_def err_close_def
        err_delete_line_def err_remove_event_def split: prod.splits)

lemma enable_intx_failed [simp]:
  "idx \<noteq> VFIO_PCI_INTX_IRQ_INDEX \<Longrightarrow>
   failed_set_irqs idx (host_calls (snd (vfio_pci_enable_intx env vdev))) =
     failed_set_irqs idx (host_calls vdev)"
  by (simp add: vfio_pci_enable_intx_def Let_def host_defs intx_request_def err_close_def
        err_delete_line_def err_remove_event_def split: prod.splits)

lemma enable_intx_pairD:
  "vfio_pci_enable_intx env v = (a, b) \<Longrightarrow>
   a = fst (vfio_pci_enable_intx env v) \<and> b = snd (vfio_pci_enable_intx env v)"
  by simp

lemma disable_msis_kept:
  assumes "info_index (msis is_msix vdev) \<noteq> VFIO_PCI_INTX_IRQ_INDEX"
    and "failed_set_irqs (info_index (msis is_msix vdev)) (host_calls vdev)
        < failed_set_irqs (info_index (msis is_msix vdev))
            (host_calls (snd (vfio_pci_disable_msis env is_msix vdev)))"
  shows "cap_host_state (msis is_msix (snd (vfio_pci_disable_msis env is_msix vdev))) =
           cap_host_state (msis is_msix vdev) \<and>
         msi_is_enabled (cap_host_state (msis is_msix vdev)) \<and>
         fst (vfio_pci_disable_msis env is_msix vdev) < 0"
  using assms
  by (auto simp: vfio_pci_disable_msis_def Let_def host_defs disarm_request_def
      split: prod.splits if_splits dest: answered_unique dest!: enable_intx_pairD)

lemma disable_msis_issues:
  assumes "msi_is_enabled (cap_host_state (msis is_msix vdev))"
    and "info_index (msis is_msix vdev) \<noteq> VFIO_PCI_INTX_IRQ_INDEX"
  shows "n_set_irqs (info_index (msis is_msix vdev)) (host_calls vdev)
    < n_set_irqs (info_index (msis is_msix vdev))
        (host_calls (snd (vfio_pci_disable_msis env is_msix vdev)))"
  using assms
  by (auto simp: vfio_pci_disable_msis_def Let_def host_defs disarm_request_def
      split: prod.splits if_splits dest!: enable_intx_pairD)

lemma enable_msis_multi_issues:
  assumes "wants_multi is_msix vdev"
    and "info_index (msis is_msix vdev) \<noteq> VFIO_PCI_INTX_IRQ_INDEX"
  shows "n_set_irqs (info_index (msis is_msix vdev)) (host_calls vdev)
    < n_set_irqs (info_index (msis is_msix vdev))
        (host_calls (snd (vfio_pci_enable_msis env is_msix vdev)))"
  using assms
  by (auto simp: vfio_pci_enable_msis_def wants_multi_def Let_def host_defs multi_request_def
      split: prod.splits if_splits)

lemma disable_intx_fd [simp]: "intx_fd (vfio_pci_disable_intx env vdev) = -1"
  by (simp add: vfio_pci_disable_intx_def Let_def)

lemma enable_msis_single_eq:
  assumes "wants_single is_msix vdev"
  shows "vfio_pci_enable_msis env is_msix vdev =
    update_vectors env is_msix [0 ..< nr_entries (msis is_msix vdev)] 0
      (if irq_modes vdev AND VFIO_PCI_IRQ_MODE_INTX \<noteq> 0
       then vfio_pci_disable_intx env vdev else vdev)"
  using assms
  by (auto simp: vfio_pci_enable_msis_def wants_single_def wants_multi_def Let_def)

lemma disable_intx_idle: "intx_fd vdev = -1 \<Longrightarrow> vfio_pci_disable_intx env vdev = vdev"
  by (simp add: vfio_pci_disable_intx_def)

lemma disable_intx_alloc [simp]:
  "irq_set_eventfds (msis is_msix (vfio_pci_disable_intx env vdev)) =
     irq_set_eventfds (msis is_msix vdev)"
  by simp

lemma enable_msis_frame:
  "cap_guest_state (msis is_msix (snd (vfio_pci_enable_msis env is_msix vdev))) =
     cap_guest_state (msis is_msix vdev)"
  "info_index (msis is_msix (snd (vfio_pci_enable_msis env is_msix vdev))) =
     info_index (msis is_msix vdev)"
  "entries (msis is_msix (snd (vfio_pci_enable_msis env is_msix vdev))) =
     entries (msis is_msix vdev)"
  "irq_modes (snd (vfio_pci_enable_msis env is_msix vdev)) = irq_modes vdev"
  by (auto simp: vfio_pci_enable_msis_def Let_def host_defs update_vectors_frame
      split: prod.splits)

lemma disable_msis_frame:
  "cap_guest_state (msis is_msix (snd (vfio_pci_disable_msis env is_msix vdev))) =
     cap_guest_state (msis is_msix vdev)"
  "info_index (msis is_msix (snd (vfio_pci_disable_msis env is_msix vdev))) =
     info_index (msis is_msix vdev)"
  "entries (msis is_msix (snd (vfio_pci_disable_msis env is_msix vdev))) =
     entries (msis is_msix vdev)"
  "irq_modes (snd (vfio_pci_disable_msis env is_msix vdev)) = irq_modes vdev"
  by (auto simp: vfio_pci_disable_msis_def Let_def host_defs
      split: prod.splits dest!: enable_intx_pairD)

lemma enable_msis_failed_wants:
  assumes "info_index (msis is_msix vdev) \<noteq> VFIO_PCI_INTX_IRQ_INDEX"
    and "failed_set_irqs (info_index (msis is_msix vdev)) (host_calls vdev)
        < failed_set_irqs (info_index (msis is_msix vdev))
            (host_calls (snd (vfio_pci_enable_msis env is_msix vdev)))"
  shows "wants_multi is_msix vdev \<or> wants_single is_msix vdev"
  using assms
  by (auto simp: vfio_pci_enable_msis_def wants_single_def wants_multi_def Let_def
      split: if_splits)

lemma enable_msis_retry:
  assumes idx: "info_index (msis is_msix vdev) \<noteq> VFIO_PCI_INTX_IRQ_INDEX"
    and alloc: "length (irq_set_eventfds (msis is_msix vdev)) = nr_entries (msis is_msix vdev)"
    and failed: "failed_set_irqs (info_index (msis is_msix vdev)) (host_calls vdev)
        < failed_set_irqs (info_index (msis is_msix vdev))
            (host_calls (snd (vfio_pci_enable_msis env is_msix vdev)))"
  shows "n_set_irqs (info_index (msis is_msix vdev))
        (host_calls (snd (vfio_pci_enable_msis env is_msix vdev)))
    < n_set_irqs (info_index (msis is_msix vdev))
        (host_calls (snd (vfio_pci_enable_msis env is_msix
           (snd (vfio_pci_enable_msis env is_msix vdev)))))"
proof -
  define v' where "v' = snd (vfio_pci_enable_msis env is_msix vdev)"
  note kept = enable_msis_kept [OF idx failed, folded v'_def]
  have fr: "cap_guest_state (msis is_msix v') = cap_guest_state (msis is_msix vdev)"
    "info_index (msis is_msix v') = info_index (msis is_msix vdev)"
    "entries (msis is_msix v') = entries (msis is_msix vdev)"
    "irq_modes v' = irq_modes vdev"
    by (simp_all add: v'_def enable_msis_frame)
  from enable_msis_failed_wants [OF idx failed] show ?thesis
  proof
    assume "wants_multi is_msix vdev"
    then have "wants_multi is_msix v'"
      using kept fr by (auto simp: wants_multi_def)
    then show ?thesis
      using enable_msis_multi_issues [of is_msix v' env] idx fr
      by (simp add: v'_def)
  next
    assume w: "wants_single is_msix vdev"
    define v1 where "v1 = (if irq_modes vdev AND VFIO_PCI_IRQ_MODE_INTX \<noteq> 0
       then vfio_pci_disable_intx env vdev else vdev)"
    define n where "n = nr_entries (msis is_msix vdev)"
    have e1: "vfio_pci_enable_msis env is_msix vdev = update_vectors env is_msix [0 ..< n] 0 v1"
      using enable_msis_single_eq [OF w] by (simp add: v1_def n_def)
    have m1: "msis is_msix v1 = msis is_msix vdev" by (simp add: v1_def)
    have w': "wants_single is_msix v'"
      using w kept fr by (auto simp: wants_single_def wants_multi_def)
    have "irq_modes vdev AND VFIO_PCI_IRQ_MODE_INTX \<noteq> 0 \<Longrightarrow> intx_fd v' = -1"
      by (simp add: v'_def e1 update_vectors_frame v1_def)
    then have "(if irq_modes v' AND VFIO_PCI_IRQ_MODE_INTX \<noteq> 0
       then vfio_pci_disable_intx env v' else v') = v'"
      by (simp add: fr disable_intx_idle)
    then have e2: "vfio_pci_enable_msis env is_msix v' = update_vectors env is_msix [0 ..< n] 0 v'"
      using enable_msis_single_eq [OF w', of env] by (simp add: n_def nr_entries_def fr)
    have "n_set_irqs (info_index (msis is_msix v1))
       (host_calls (snd (update_vectors env is_msix [0 ..< n] 0 v1)))
      < n_set_irqs (info_index (msis is_msix v1))
        (host_calls (snd (update_vectors env is_msix [0 ..< n] 0
          (snd (update_vectors env is_msix [0 ..< n] 0 v1)))))"
    proof (rule update_vectors_retry)
      show "distinct [0 ..< n]" by simp
      show "fst (update_vectors env is_msix [0 ..< n] 0 v1) < 0"
        using kept by (simp add: v'_def e1)
      show "(0::int) \<le> 0" by simp
      show "\<forall>i \<in> set [0 ..< n]. i < length (irq_set_eventfds (msis is_msix v1))"
        using alloc by (simp add: m1 n_def)
    qed
    then show ?thesis
      using e2 by (simp add: e1 m1 v'_def)
  qed
qed

section \<open>A failing SET_IRQS on the capability's index leaves the host state alone\<close>

text \<open>
  C7. Atomicity of the capability's host state. The claim speaks of any failing
  \<open>SET_IRQS\<close> during an enable or disable transition; it holds of the requests on the
  capability's own interrupt index, and not of the requests on the INTx index that the
  same transitions make (shown after the theorem). Let the operation be
  \<open>vfio_pci_enable_msis\<close> or \<open>vfio_pci_disable_msis\<close> on a capability whose
  interrupt index is not the INTx one and whose descriptor array has \<open>nr_entries\<close>
  slots. If a \<open>SET_IRQS\<close> request on that index fails during the operation, the
  capability's \<open>host_state\<close> after it is the one before it and the operation
  returns a negative value; and running the same operation again on the state it left
  makes a \<open>SET_IRQS\<close> request on that index again.
\<close>

theorem host_state_kept_on_failure:
  assumes op: "f = vfio_pci_enable_msis \<or> f = vfio_pci_disable_msis"
    and idx: "info_index (msis is_msix vdev) \<noteq> VFIO_PCI_INTX_IRQ_INDEX"
    and alloc: "length (irq_set_eventfds (msis is_msix vdev)) = nr_entries (msis is_msix vdev)"
    and failed: "failed_set_irqs (info_index (msis is_msix vdev)) (host_calls vdev)
        < failed_set_irqs (info_index (msis is_msix vdev))
            (host_calls (snd (f env is_msix vdev)))"
  shows "cap_host_state (msis is_msix (snd (f env is_msix vdev))) =
           cap_host_state (msis is_msix vdev) \<and>
         fst (f env is_msix vdev) < 0 \<and>
         n_set_irqs (info_index (msis is_msix vdev)) (host_calls (snd (f env is_msix vdev)))
           < n_set_irqs (info_index (msis is_msix vdev))
               (host_calls (snd (f env is_msix (snd (f env is_msix vdev)))))"
  using op
proof
  assume f: "f = vfio_pci_enable_msis"
  show ?thesis
    using enable_msis_kept [OF idx failed [unfolded f]]
      enable_msis_retry [OF idx alloc failed [unfolded f]]
    by (simp add: f)
next
  assume f: "f = vfio_pci_disable_msis"
  note k = disable_msis_kept [OF idx failed [unfolded f]]
  have "n_set_irqs (info_index (msis is_msix vdev))
      (host_calls (snd (vfio_pci_disable_msis env is_msix vdev)))
    < n_set_irqs (info_index (msis is_msix vdev))
      (host_calls (snd (vfio_pci_disable_msis env is_msix
         (snd (vfio_pci_disable_msis env is_msix vdev)))))"
    using disable_msis_issues [of is_msix "snd (vfio_pci_disable_msis env is_msix vdev)" env]
      k idx by (simp add: disable_msis_frame)
  with k show ?thesis by (simp add: f)
qed

theorem host_state_kept_on_failure_witness:
  "info_index (msis True demo_guest_enabled) \<noteq> VFIO_PCI_INTX_IRQ_INDEX \<and>
   failed_set_irqs VFIO_PCI_MSIX_IRQ_INDEX (host_calls demo_guest_enabled)
     < failed_set_irqs VFIO_PCI_MSIX_IRQ_INDEX
         (host_calls (snd (vfio_pci_enable_msis demo_env_failing True demo_guest_enabled))) \<and>
   cap_host_state (msis True
       (snd (vfio_pci_enable_msis demo_env_failing True demo_guest_enabled))) =
     cap_host_state (msis True demo_guest_enabled) \<and>
   fst (vfio_pci_enable_msis demo_env_failing True demo_guest_enabled) < 0 \<and>
   failed_set_irqs VFIO_PCI_MSIX_IRQ_INDEX (host_calls demo_armed)
     < failed_set_irqs VFIO_PCI_MSIX_IRQ_INDEX
         (host_calls (snd (vfio_pci_disable_msis demo_env_failing True demo_armed))) \<and>
   cap_host_state (msis True (snd (vfio_pci_disable_msis demo_env_failing True demo_armed))) =
     cap_host_state (msis True demo_armed) \<and>
   fst (vfio_pci_disable_msis demo_env_failing True demo_armed) < 0"
proof -
  have i1: "info_index (msis True demo_guest_enabled) \<noteq> VFIO_PCI_INTX_IRQ_INDEX"
    and i1': "info_index (msis True demo_guest_enabled) = VFIO_PCI_MSIX_IRQ_INDEX"
    and a1: "length (irq_set_eventfds (msis True demo_guest_enabled)) =
      nr_entries (msis True demo_guest_enabled)"
    and f1: "failed_set_irqs (info_index (msis True demo_guest_enabled))
        (host_calls demo_guest_enabled)
      < failed_set_irqs (info_index (msis True demo_guest_enabled))
         (host_calls (snd (vfio_pci_enable_msis demo_env_failing True demo_guest_enabled)))"
    by code_simp+
  have i2: "info_index (msis True demo_armed) \<noteq> VFIO_PCI_INTX_IRQ_INDEX"
    and i2': "info_index (msis True demo_armed) = VFIO_PCI_MSIX_IRQ_INDEX"
    and a2: "length (irq_set_eventfds (msis True demo_armed)) = nr_entries (msis True demo_armed)"
    and f2: "failed_set_irqs (info_index (msis True demo_armed)) (host_calls demo_armed)
      < failed_set_irqs (info_index (msis True demo_armed))
         (host_calls (snd (vfio_pci_disable_msis demo_env_failing True demo_armed)))"
    by code_simp+
  show ?thesis
    using i1 f1 f2
      host_state_kept_on_failure [OF disjI1 [OF refl] i1 a1 f1]
      host_state_kept_on_failure [OF disjI2 [OF refl] i2 a2 f2]
    by (simp add: i1' i2')
qed

text \<open>
  A failing request on the INTx index does move the host state. When the guest
  disables MSI-X on the armed example device and the host refuses the INTx trigger,
  \<open>vfio_pci_disable_msis\<close> has already cleared ENABLED (\<open>host_state\<close> goes from 5 to 4)
  when \<open>vfio_pci_enable_intx\<close> fails; it returns -1, and the same call again returns 0
  at once and asks nothing of the host. When the guest enables MSI-X and the host
  refuses the INTx teardown, \<open>vfio_pci_disable_intx\<close> does not look at the result:
  \<open>vfio_pci_enable_msis\<close> returns 0 and \<open>host_state\<close> goes from 0 to 5.
\<close>

theorem intx_failure_moves_host_state:
  "failed_set_irqs VFIO_PCI_INTX_IRQ_INDEX (host_calls demo_armed)
     < failed_set_irqs VFIO_PCI_INTX_IRQ_INDEX
         (host_calls (snd (vfio_pci_disable_msis demo_env_intx_failing True demo_armed))) \<and>
   fst (vfio_pci_disable_msis demo_env_intx_failing True demo_armed) = -1 \<and>
   cap_host_state (msix demo_armed) = 5 \<and>
   cap_host_state (msix (snd (vfio_pci_disable_msis demo_env_intx_failing True demo_armed))) = 4 \<and>
   vfio_pci_disable_msis demo_env_intx_failing True
       (snd (vfio_pci_disable_msis demo_env_intx_failing True demo_armed)) =
     (0, snd (vfio_pci_disable_msis demo_env_intx_failing True demo_armed)) \<and>
   failed_set_irqs VFIO_PCI_INTX_IRQ_INDEX (host_calls demo_guest_enabled)
     < failed_set_irqs VFIO_PCI_INTX_IRQ_INDEX
         (host_calls (snd (vfio_pci_enable_msis demo_env_intx_failing True demo_guest_enabled))) \<and>
   fst (vfio_pci_enable_msis demo_env_intx_failing True demo_guest_enabled) = 0 \<and>
   cap_host_state (msix demo_guest_enabled) = 0 \<and>
   cap_host_state (msix (snd (vfio_pci_enable_msis demo_env_intx_failing True demo_guest_enabled))) = 5"
  by (intro conjI; code_simp)

section \<open>The vectors an MSI control byte asks for\<close>

lemma update_msi_entry_frame:
  "vfio_pci_update_msi_entry env e v = (r, e', v') \<Longrightarrow>
     msi v' = msi v \<and> msix v' = msix v \<and> irq_modes v' = irq_modes v \<and>
     intx_fd v' = intx_fd v \<and> hdr v' = hdr v"
  by (auto simp add: vfio_pci_update_msi_entry_def host_defs split: prod.splits if_splits)

lemma route_vectors_overrun:
  "k \<le> nr_entries (msi vdev) \<Longrightarrow> nr_entries (msi vdev) < n \<Longrightarrow>
   msi_route_vectors env n [k ..< n] m vdev = Inl (OUT_OF_BOUNDS (nr_entries (msi vdev)))"
proof (induction "nr_entries (msi vdev) - k" arbitrary: k m vdev)
  case 0
  then have "k = nr_entries (msi vdev)" by simp
  with 0 show ?case by (simp add: upt_conv_Cons)
next
  case (Suc d)
  then have lt: "k < nr_entries (msi vdev)" and kn: "k < n" by simp_all
  show ?case
    using Suc.hyps(1) [of _ "Suc k"] Suc.hyps(2) Suc.prems lt
    by (auto simp add: upt_conv_Cons [OF kn] Let_def set_msi_entry_def nr_entries_def
        split: prod.splits dest!: update_msi_entry_frame)
qed

text \<open>
  C4. The claim is that the loop of \<open>vfio_pci_msi_cap_write\<close> stays below
  \<open>msi.nr_entries\<close> for every control byte the guest writes. It does not: whenever the
  byte written at \<open>msi.pos + 2\<close> has the enable bit and asks for more vectors than the
  capability allocated, \<open>2 ^ ((c & QSIZE) >> 4) > nr_entries\<close>, the loop goes through the
  allocated entries and then takes \<open>entries[nr_entries]\<close>, past the end of the array.
  Nothing in the function compares \<open>nr_vectors\<close> with \<open>nr_entries\<close>.
\<close>

theorem msi_cap_write_overruns_entries:
  assumes len: "pos (msi vdev) + 14 \<le> length (hdr vdev)"
    and en: "c AND PCI_MSI_FLAGS_ENABLE \<noteq> 0"
    and more: "nr_entries (msi vdev) < msi_nr_vectors c"
  shows "vfio_pci_msi_cap_write env (of_nat (pos (msi vdev)) + 2) [c] vdev =
           Inl (OUT_OF_BOUNDS (nr_entries (msi vdev)))"
proof -
  have vw: "vfio_pci_msi_vector_write env 2 [c] vdev = Inr (0, vdev)"
    by (simp add: vfio_pci_msi_vector_write_def Let_def PCI_MSI_MASK_64_def PCI_MSI_MASK_32_def)
  let ?v = "vdev\<lparr>msi := (msi vdev)\<lparr>cap_guest_state :=
               msi_set_enabled (cap_guest_state (msi vdev)) True\<rparr>\<rparr>"
  have n: "nr_entries (msi ?v) = nr_entries (msi vdev)"
    by (simp add: nr_entries_def)
  have rv: "msi_route_vectors env (msi_nr_vectors c) [0 ..< msi_nr_vectors c] m ?v =
      Inl (OUT_OF_BOUNDS (nr_entries (msi vdev)))" for m
    using route_vectors_overrun [of 0 ?v "msi_nr_vectors c" env m] more
    unfolding n by simp
  show ?thesis
    using len en
    by (simp add: vfio_pci_msi_cap_write_def Let_def vw PCI_MSI_FLAGS_def msi_state_bits
        rv then_do_def)
qed

text \<open>
  On the example device with one MSI vector, the guest writes the byte 0x11 (enable,
  Multiple Message Enable = 1, two vectors) at 0x42.
\<close>

theorem msi_cap_write_overruns_entries_witness:
  "fst (vfio_pci_configure_dev_irqs demo_env demo_platform
          (snd (vfio_pci_create_msi_cap demo_msi_blank))) = 0 \<and>
   nr_entries (msi demo_msi_device) = 1 \<and> msi_nr_vectors 0x11 = 2 \<and>
   vfio_pci_msi_cap_write demo_env 0x42 [0x11] demo_msi_device = Inl (OUT_OF_BOUNDS 1) \<and>
   vfio_pci_cfg_write demo_env 0x42 [0x11] demo_msi_device = Inl (OUT_OF_BOUNDS 1)"
proof -
  have p: "pos (msi demo_msi_device) = 0x40"
    and len: "pos (msi demo_msi_device) + 14 \<le> length (hdr demo_msi_device)"
    and en: "(0x11 :: u8) AND PCI_MSI_FLAGS_ENABLE \<noteq> 0"
    and n: "nr_entries (msi demo_msi_device) = 1"
    and v: "msi_nr_vectors 0x11 = 2"
    and ok: "fst (vfio_pci_configure_dev_irqs demo_env demo_platform
          (snd (vfio_pci_create_msi_cap demo_msi_blank))) = 0"
    and cfg: "vfio_pci_cfg_write demo_env 0x42 [0x11] demo_msi_device = Inl (OUT_OF_BOUNDS 1)"
    by code_simp+
  have more: "nr_entries (msi demo_msi_device) < msi_nr_vectors 0x11"
    by (simp add: n v)
  show ?thesis
    using msi_cap_write_overruns_entries [OF len en more, of demo_env] ok cfg
    by (simp add: p n v)
qed

section \<open>Disabling a capability falls back to INTx\<close>

lemma enable_intx_issues:
  assumes "vfio_pci_enable_intx env vdev = (ret, vdev')"
  shows "\<exists>rest. host_calls vdev' = host_calls vdev @ rest \<and>
     (list_all (\<lambda>cr. 0 \<le> snd cr) rest \<longrightarrow>
        ret = 0 \<and> intx_fd vdev' \<noteq> -1 \<and> msi vdev' = msi vdev \<and> msix vdev' = msix vdev \<and>
        irq_modes vdev' = irq_modes vdev \<and>
        map fst rest = (if intx_fd vdev = -1 then intx_arming vdev' else []))"
  using assms
  by (auto simp add: vfio_pci_enable_intx_def host_defs intx_arming_def err_close_def
      err_delete_line_def err_remove_event_def split: prod.splits if_splits)

lemma disable_msis_fallback:
  assumes en: "msi_is_enabled (cap_host_state (msis is_msix vdev))"
    and intx: "irq_modes vdev AND VFIO_PCI_IRQ_MODE_INTX \<noteq> 0"
    and eq: "vfio_pci_disable_msis env is_msix vdev = (ret, vdev')"
  shows "\<exists>r rest. host_calls vdev' =
           host_calls vdev @
           (VFIO_DEVICE_SET_IRQS (disarm_request (info_index (msis is_msix vdev))), r) # rest \<and>
         (list_all (\<lambda>cr. 0 \<le> snd cr) ((VFIO_DEVICE_SET_IRQS (disarm_request (info_index (msis is_msix vdev))), r) # rest) \<longrightarrow>
           ret = 0 \<and> \<not> msi_is_enabled (cap_host_state (msis is_msix vdev')) \<and>
           intx_fd vdev' \<noteq> -1 \<and> irq_modes vdev' = irq_modes vdev \<and>
           map fst rest = (if intx_fd vdev = -1 then intx_arming vdev' else []))"
proof -
  let ?c = "VFIO_DEVICE_SET_IRQS (disarm_request (info_index (msis is_msix vdev)))"
  define r where "r = env (host_calls vdev) ?c"
  let ?v1 = "vdev\<lparr>host_calls := host_calls vdev @ [(?c, r)]\<rparr>"
  let ?v2 = "msis_update is_msix (\<lambda>m.
      m\<lparr>cap_host_state := msi_set_empty (msi_set_enabled (cap_host_state m) False) True\<rparr>) ?v1"
  have h: "host env ?c vdev = (r, ?v1)"
    by (simp add: host_def r_def)
  show ?thesis
  proof (cases "r < 0")
    case True
    then have "vdev' = pr ''VFIO_DEVICE_SET_IRQS(NONE)'' ?v1"
      using eq en h by (auto simp add: vfio_pci_disable_msis_def)
    then show ?thesis
      using True by (intro exI [of _ r] exI [of _ "[]"]) (simp add: pr_def)
  next
    case False
    have m2: "irq_modes ?v2 AND VFIO_PCI_IRQ_MODE_INTX \<noteq> 0"
      using intx by (simp add: msis_update_def)
    obtain ret2 where e2: "vfio_pci_enable_intx env ?v2 = (ret2, vdev')"
      using eq en h False m2
      by (auto simp add: vfio_pci_disable_msis_def Let_def split: prod.splits)
    from enable_intx_issues [OF e2] obtain rest where
      hc: "host_calls vdev' = host_calls ?v2 @ rest" and
      ok: "list_all (\<lambda>cr. 0 \<le> snd cr) rest \<Longrightarrow>
        ret2 = 0 \<and> intx_fd vdev' \<noteq> -1 \<and> msi vdev' = msi ?v2 \<and> msix vdev' = msix ?v2 \<and>
        irq_modes vdev' = irq_modes ?v2 \<and>
        map fst rest = (if intx_fd ?v2 = -1 then intx_arming vdev' else [])"
      by blast
    have ret: "ret = (if ret2 \<ge> 0 then 0 else ret2)"
      using eq en h False m2 e2
      by (auto simp add: vfio_pci_disable_msis_def Let_def split: prod.splits)
    have st: "\<not> msi_is_enabled (cap_host_state (msis is_msix ?v2))"
      by (simp add: msis_def msis_update_def msi_state_bits)
    have fr: "intx_fd ?v2 = intx_fd vdev" "irq_modes ?v2 = irq_modes vdev"
      "host_calls ?v2 = host_calls vdev @ [(?c, r)]"
      by (simp_all add: msis_update_def)
    show ?thesis
      using hc ok st fr ret
      by (intro exI [of _ r] exI [of _ rest]) (auto simp add: msis_def)
  qed
qed


lemma msi_enable_bit: "(c AND PCI_MSI_FLAGS_ENABLE \<noteq> 0) = bit (c :: u8) 0"
  using and_exp_eq_0_iff_not_bit [of c 0] by (simp add: PCI_MSI_FLAGS_ENABLE_def)

lemma msix_enable_bit:
  "((push_bit 8 (ucast (b :: u8)) :: u16) AND PCI_MSIX_FLAGS_ENABLE \<noteq> 0) = bit b 7"
proof -
  have "PCI_MSIX_FLAGS_ENABLE = (2 ^ 15 :: u16)" by (simp add: PCI_MSIX_FLAGS_ENABLE_def)
  then show ?thesis
    using and_exp_eq_0_iff_not_bit [of "push_bit 8 (ucast b) :: u16" 15]
    by (simp add: bit_simps)
qed

lemma rel_offset:
  assumes "k \<le> e" "e < 4"
  shows "uint ((of_nat (p + e - k) :: u16) - of_nat p) = int e - int k"
proof -
  have "p + e - k = p + (e - k)" using assms by simp
  then have "(of_nat (p + e - k) :: u16) - of_nat p = of_nat (e - k)"
    by (simp del: of_nat_diff)
  moreover have "uint (of_nat (e - k) :: u16) = int (e - k)"
  proof -
    have "e - k < 2 ^ 16" using assms by simp
    then show ?thesis
      by (simp add: unsigned_of_nat take_bit_nat_eq_self del: of_nat_diff)
  qed
  moreover have "int (e - k) = int e - int k"
    using assms by simp
  ultimately show ?thesis by (simp only:)
qed

lemma msix_cap_write_disable:
  assumes "uint (off - of_nat (pos (msix vdev))) = int 3 - int k"
    and "k \<le> 3" "k < length dat" "\<not> bit (dat ! k) 7"
  shows "\<exists>g. vfio_pci_msix_cap_write env off dat vdev =
     (case vfio_pci_disable_msis env True (vdev\<lparr>msix := (msix vdev)\<lparr>cap_guest_state := g\<rparr>\<rparr>) of
        (ret, vdev2) \<Rightarrow> if ret \<noteq> 0 then pr ''cannot disable MSIX'' vdev2 else vdev2)"
  using assms
  by (auto simp add: vfio_pci_msix_cap_write_def Let_def PCI_MSIX_FLAGS_def msix_enable_bit)

lemma msi_cap_write_disable:
  assumes u: "uint (off - of_nat (pos (msi vdev))) = int 2 - int k"
    and k: "k \<le> 2" "k < length dat" "length dat \<le> 4" "\<not> bit (dat ! k) 0"
    "pos (msi vdev) + 4 \<le> length (hdr vdev)"
  shows "\<exists>g. vfio_pci_msi_cap_write env off dat vdev =
     Inr (snd (vfio_pci_disable_msis env False (vdev\<lparr>msi := (msi vdev)\<lparr>cap_guest_state := g\<rparr>\<rparr>)))"
proof -
  have vw: "vfio_pci_msi_vector_write env (off - of_nat (pos (msi vdev))) dat vdev = Inr (0, vdev)"
    using k u
    by (simp add: vfio_pci_msi_vector_write_def Let_def PCI_MSI_MASK_64_def PCI_MSI_MASK_32_def)
  show ?thesis
    using k u
    by (auto simp add: vfio_pci_msi_cap_write_def Let_def vw PCI_MSI_FLAGS_def msi_enable_bit
        msi_state_bits then_do_def)
qed

text \<open>
  C6. Fallback to legacy interrupts. The guest writes up to four bytes over the enable
  byte of MSI or MSI-X with the enable bit clear, while the capability is enabled on
  the host and the device has the INTx mode. Then the handler returns, and the first
  thing it asks of the host is the \<open>SET_IRQS\<close> request with no data and count 0 on the
  capability's index. If the host accepts it and accepts the calls that follow, the
  capability is no longer enabled on the host, INTx is armed, and what followed is the
  arming of INTx by \<open>vfio_pci_enable_intx\<close>: two eventfds, the irqfd on the INTx line, the
  trigger and the unmask \<open>SET_IRQS\<close> (nothing, if \<open>intx_fd\<close> was still set).
\<close>

theorem disable_falls_back_to_intx:
  assumes en: "msi_is_enabled (cap_host_state (msis is_msix vdev))"
    and intx: "irq_modes vdev AND VFIO_PCI_IRQ_MODE_INTX \<noteq> 0"
    and k: "k \<le> enable_byte is_msix" "k < length dat" "length dat \<le> 4"
    and clear: "\<not> bit (dat ! k) (enable_bit is_msix)"
    and hdr: "pos (msi vdev) + 4 \<le> length (hdr vdev)"
  shows "\<exists>vdev' r rest.
      cap_write env is_msix (of_nat (pos (msis is_msix vdev) + enable_byte is_msix - k)) dat vdev
        = Inr vdev' \<and>
      host_calls vdev' =
        host_calls vdev @
        (VFIO_DEVICE_SET_IRQS (disarm_request (info_index (msis is_msix vdev))), r) # rest \<and>
      (0 \<le> r \<and> list_all (\<lambda>cr. 0 \<le> snd cr) rest \<longrightarrow>
         \<not> msi_is_enabled (cap_host_state (msis is_msix vdev')) \<and> intx_enabled vdev' \<and>
         map fst rest = (if intx_fd vdev = -1 then intx_arming vdev' else []))"
proof -
  obtain g where w: "cap_write env is_msix
        (of_nat (pos (msis is_msix vdev) + enable_byte is_msix - k)) dat vdev =
      Inr (let v1 = msis_update is_msix (\<lambda>m. m\<lparr>cap_guest_state := g\<rparr>) vdev;
               rv = vfio_pci_disable_msis env is_msix v1
           in if is_msix \<and> fst rv \<noteq> 0 then pr ''cannot disable MSIX'' (snd rv) else snd rv)"
  proof (cases is_msix)
    case True
    with msix_cap_write_disable [OF rel_offset [of k 3 "pos (msix vdev)"], of dat env] k clear
    obtain g where "vfio_pci_msix_cap_write env (of_nat (pos (msix vdev) + 3 - k)) dat vdev =
     (case vfio_pci_disable_msis env True (vdev\<lparr>msix := (msix vdev)\<lparr>cap_guest_state := g\<rparr>\<rparr>) of
        (ret, vdev2) \<Rightarrow> if ret \<noteq> 0 then pr ''cannot disable MSIX'' vdev2 else vdev2)"
      by (auto simp add: enable_byte_def enable_bit_def PCI_MSIX_FLAGS_def)
    with True that [of g] show ?thesis
      by (simp add: cap_write_def msis_def msis_update_def enable_byte_def PCI_MSIX_FLAGS_def
          Let_def split: prod.splits)
  next
    case False
    with msi_cap_write_disable [OF rel_offset [of k 2 "pos (msi vdev)"], of dat env] k clear hdr
    obtain g where "vfio_pci_msi_cap_write env (of_nat (pos (msi vdev) + 2 - k)) dat vdev =
     Inr (snd (vfio_pci_disable_msis env False (vdev\<lparr>msi := (msi vdev)\<lparr>cap_guest_state := g\<rparr>\<rparr>)))"
      by (auto simp add: enable_byte_def enable_bit_def PCI_MSI_FLAGS_def)
    with False that [of g] show ?thesis
      by (simp add: cap_write_def msis_def msis_update_def enable_byte_def PCI_MSI_FLAGS_def
          Let_def split: prod.splits)
  qed
  let ?v1 = "msis_update is_msix (\<lambda>m. m\<lparr>cap_guest_state := g\<rparr>) vdev"
  obtain ret v2 where d: "vfio_pci_disable_msis env is_msix ?v1 = (ret, v2)"
    by (cases "vfio_pci_disable_msis env is_msix ?v1") 
  have fr: "cap_host_state (msis is_msix ?v1) = cap_host_state (msis is_msix vdev)"
    "info_index (msis is_msix ?v1) = info_index (msis is_msix vdev)"
    "irq_modes ?v1 = irq_modes vdev" "intx_fd ?v1 = intx_fd vdev"
    "host_calls ?v1 = host_calls vdev"
    by (simp_all add: msis_def msis_update_def)
  from disable_msis_fallback [OF _ _ d] en intx fr
  obtain r rest where
    hc: "host_calls v2 = host_calls vdev @
           (VFIO_DEVICE_SET_IRQS (disarm_request (info_index (msis is_msix vdev))), r) # rest"
    and ok: "0 \<le> r \<and> list_all (\<lambda>cr. 0 \<le> snd cr) rest \<Longrightarrow>
           ret = 0 \<and> \<not> msi_is_enabled (cap_host_state (msis is_msix v2)) \<and>
           intx_fd v2 \<noteq> -1 \<and> irq_modes v2 = irq_modes vdev \<and>
           map fst rest = (if intx_fd vdev = -1 then intx_arming v2 else [])"
    by auto
  let ?v' = "if is_msix \<and> ret \<noteq> 0 then pr ''cannot disable MSIX'' v2 else v2"
  have "cap_write env is_msix
        (of_nat (pos (msis is_msix vdev) + enable_byte is_msix - k)) dat vdev = Inr ?v'"
    unfolding w using d by (cases is_msix) (auto simp add: Let_def)
  moreover have "host_calls ?v' = host_calls vdev @
           (VFIO_DEVICE_SET_IRQS (disarm_request (info_index (msis is_msix vdev))), r) # rest"
    using hc by (simp add: pr_def)
  moreover have "0 \<le> r \<and> list_all (\<lambda>cr. 0 \<le> snd cr) rest \<longrightarrow>
         \<not> msi_is_enabled (cap_host_state (msis is_msix ?v')) \<and> intx_enabled ?v' \<and>
         map fst rest = (if intx_fd vdev = -1 then intx_arming ?v' else [])"
    using ok intx by (auto simp add: intx_enabled_def)
  ultimately show ?thesis by blast
qed


theorem disable_falls_back_to_intx_witness:
  "msi_is_enabled (cap_host_state (msix demo_armed)) \<and>
   cap_write demo_env True 0x43 [0] demo_armed = Inr demo_fallback \<and>
   calls_since demo_armed demo_fallback =
     VFIO_DEVICE_SET_IRQS (disarm_request VFIO_PCI_MSIX_IRQ_INDEX) # intx_arming demo_fallback \<and>
   \<not> msi_is_enabled (cap_host_state (msix demo_fallback)) \<and> intx_enabled demo_fallback"
proof -
  have en: "msi_is_enabled (cap_host_state (msis True demo_armed))"
    and en': "msi_is_enabled (cap_host_state (msix demo_armed))"
    and intx: "irq_modes demo_armed AND VFIO_PCI_IRQ_MODE_INTX \<noteq> 0"
    and k: "0 \<le> enable_byte True" "0 < length [0 :: u8]" "length [0 :: u8] \<le> 4"
    and clear: "\<not> bit ([0 :: u8] ! 0) (enable_bit True)"
    and hdr: "pos (msi demo_armed) + 4 \<le> length (hdr demo_armed)"
    and off: "(of_nat (pos (msis True demo_armed) + enable_byte True - 0) :: u16) = 0x43"
    and idx: "info_index (msis True demo_armed) = VFIO_PCI_MSIX_IRQ_INDEX"
    and fd: "intx_fd demo_armed = -1"
    and w: "cap_write demo_env True 0x43 [0] demo_armed = Inr demo_fallback"
    and ok: "list_all (\<lambda>cr. 0 \<le> snd cr)
      (drop (length (host_calls demo_armed)) (host_calls demo_fallback))"
    by code_simp+
  from disable_falls_back_to_intx [OF en intx k clear hdr, of demo_env]
  obtain v r rest where
    1: "cap_write demo_env True 0x43 [0] demo_armed = Inr v" and
    2: "host_calls v = host_calls demo_armed @
          (VFIO_DEVICE_SET_IRQS (disarm_request VFIO_PCI_MSIX_IRQ_INDEX), r) # rest" and
    3: "0 \<le> r \<and> list_all (\<lambda>cr. 0 \<le> snd cr) rest \<longrightarrow>
         \<not> msi_is_enabled (cap_host_state (msis True v)) \<and> intx_enabled v \<and>
         map fst rest = (if intx_fd demo_armed = -1 then intx_arming v else [])"
    unfolding off idx by blast
  from 1 w have v: "v = demo_fallback" by simp
  from 2 ok have "0 \<le> r \<and> list_all (\<lambda>cr. 0 \<le> snd cr) rest"
    by (simp add: v)
  with 3 have "\<not> msi_is_enabled (cap_host_state (msis True v)) \<and> intx_enabled v \<and>
         map fst rest = intx_arming v"
    by (simp add: fd)
  with 2 en' w show ?thesis
    by (simp add: v calls_since_def msis_def)
qed

section \<open>When the vectors reach the host\<close>



lemma calls_since_append:
  "host_calls v' = host_calls v @ rest \<Longrightarrow> calls_since v v' = map fst rest"
  by (simp add: calls_since_def)











section \<open>At most one interrupt mode on the host\<close>

lemma armed_simps [simp]:
  "armed (h @ h') idx = foldl (armed_step idx) (armed h idx) h'"
  "armed [] idx = False"
  by (simp_all add: armed_def)

lemma armed_step_simps [simp]:
  "armed_step idx a (VFIO_DEVICE_SET_IRQS req, r) =
     (if set_index req = idx \<and> r \<ge> 0
      then \<not> (set_data req = VFIO_IRQ_SET_DATA_NONE \<and> set_count req = 0) else a)"
  "armed_step idx a (EVENTFD, r) = a"
  "armed_step idx a (IRQ_ADD_MSIX_ROUTE m, r) = a"
  "armed_step idx a (IRQ_UPDATE_MSIX_ROUTE g m, r) = a"
  "armed_step idx a (IRQ_ADD_IRQFD g f1 f2, r) = a"
  "armed_step idx a (IRQ_DEL_IRQFD g f1, r) = a"
  "armed_step idx a (CLOSE f1, r) = a"
  "armed_step idx a (PWRITE_CONFIG off dat, r) = a"
  "armed_step idx a (PREAD_CONFIG off n, r) = a"
  by (simp_all add: armed_step_def)

lemma index_of_simps [simp]:
  "index_of b \<noteq> VFIO_PCI_INTX_IRQ_INDEX"
  "VFIO_PCI_INTX_IRQ_INDEX \<noteq> index_of b"
  "index_of b = index_of b' \<longleftrightarrow> b = b'"
  by (auto simp add: index_of_def)

lemma same_modes_refl [simp]: "same_modes v v"
  by (simp add: same_modes_def)



lemma has_mode_cong: "irq_modes v' = irq_modes v \<Longrightarrow> has_mode b v' = has_mode b v"
  by (simp add: has_mode_def)







































section \<open>Two handlers at once\<close>

lemma disable_msis_split:
  "vfio_pci_disable_msis env is_msix vdev =
     (if \<not> msi_is_enabled (cap_host_state (msis is_msix vdev)) then (0, vdev)
      else disable_msis_rest env is_msix (disable_msis_ioctl env is_msix vdev))"
  by (simp add: vfio_pci_disable_msis_def disable_msis_rest_def disable_msis_ioctl_def)

lemma msix_disable_split:
  assumes sz: "length dat \<le> 4" and rom: "offset \<noteq> PCI_ROM_ADDRESS"
    and mode: "irq_modes vdev AND VFIO_PCI_IRQ_MODE_MSIX \<noteq> 0"
    and k: "k \<le> 3" "k < length dat" "\<not> bit (dat ! k) 7"
    and off: "offset = of_nat (pos (msix vdev) + 3 - k)"
    and en: "msi_is_enabled (cap_host_state (msix vdev))"
  shows "vfio_pci_cfg_write env offset dat vdev =
           msix_disable_finish env offset dat (msix_disable_begin env offset dat vdev)"
proof -
  have u: "uint (offset - of_nat (pos (msix vdev))) = int 3 - int k"
    unfolding off using k(1) by (intro rel_offset) simp_all
  have ix: "nat (3 - (3 - int k)) = k" by simp
  show ?thesis
    using sz rom mode k en
    by (simp add: vfio_pci_cfg_write_def vfio_pci_msix_cap_write_def msix_disable_finish_def
        msix_disable_begin_def disable_msis_split Let_def host_def pr_def u ix
        PCI_MSIX_FLAGS_def msix_enable_bit msis_def msi_state_bits case_prod_beta)
qed


end
